(* ===== verification/Prelude.thy ===== *)
theory Prelude
  imports Complex_Main "HOL-Library.Sublist"
begin

text \<open>
  Shared vocabulary of the product-service development: the error monad used for
  every fallible operation (a Python exception is an \<open>Inl\<close> value), the collection
  of validation errors, and generic lemmas about lists of rows kept in ascending key
  order, which is how the product table is modelled.  The named collections gather
  the evaluation equations of the table operations (\<open>table_simps\<close>) and the facts
  that they keep the table invariant (\<open>table_inv\<close>).
\<close>

named_theorems table_simps "equations that evaluate the operations on the product table"
named_theorems table_inv "facts that an operation keeps the product table well formed"

type_synonym timestamp = nat

section \<open>Results: exceptions as \<open>Inl\<close>\<close>

definition sbind :: "'e + 'a \<Rightarrow> ('a \<Rightarrow> 'e + 'b) \<Rightarrow> 'e + 'b" where
  "sbind r f = (case r of Inl e \<Rightarrow> Inl e | Inr a \<Rightarrow> f a)"

lemma sbind_simps [simp]:
  "sbind (Inl e) f = Inl e"
  "sbind (Inr a) f = f a"
  by (simp_all add: sbind_def)

lemma sbind_eq_Inr [simp]:
  "sbind r f = Inr b \<longleftrightarrow> (\<exists>a. r = Inr a \<and> f a = Inr b)"
  by (cases r) simp_all

lemma sbind_eq_Inl:
  "sbind r f = Inl e \<longleftrightarrow> r = Inl e \<or> (\<exists>a. r = Inr a \<and> f a = Inl e)"
  by (cases r) simp_all

text \<open>The errors a validator reports: none when it succeeded.\<close>

fun errs :: "'e list + 'a \<Rightarrow> 'e list" where
  "errs (Inl es) = es"
| "errs (Inr _) = []"

section \<open>Rows kept in ascending key order\<close>

text \<open>
  A table is a list of rows whose keys, read by \<open>k\<close>, strictly ascend.  The lemmas
  below are what the table operations need: the key order survives filtering, mapping
  that does not touch the key, and appending a row with a larger key; and a lookup by
  key finds the one row with that key.
\<close>

lemma sorted_keys_filter [table_inv]:
  "sorted_wrt (<) (map k xs) \<Longrightarrow> sorted_wrt (<) (map k (filter P xs))"
  by (induction xs) auto

lemma sorted_keys_snoc [table_inv]:
  "sorted_wrt (<) (map k xs) \<Longrightarrow> (\<forall>y\<in>set xs. k y < k x) \<Longrightarrow>
   sorted_wrt (<) (map k (xs @ [x]))"
  by (induction xs) auto

lemma map_key_put:
  "k x = a \<Longrightarrow> map k (map (\<lambda>y. if k y = a then x else y) xs) = map k xs"
  by (induction xs) auto

lemma sorted_keys_distinct:
  fixes k :: "'a \<Rightarrow> 'b::linorder"
  shows "sorted_wrt (<) (map k xs) \<Longrightarrow> distinct (map k xs)"
  by (simp only: strict_sorted_iff)

lemma sorted_Max_last:
  fixes k :: "'a \<Rightarrow> 'b::linorder"
  shows "sorted_wrt (<) (map k xs) \<Longrightarrow> xs \<noteq> [] \<Longrightarrow> Max (set (map k xs)) = k (last xs)"
proof (induction xs)
  case (Cons x xs)
  show ?case
  proof (cases "xs = []")
    case False
    with Cons have IH: "Max (set (map k xs)) = k (last xs)" by simp
    from Cons.prems(1) False have "k x < k (last xs)" by simp
    with False IH show ?thesis by (auto simp: max_def)
  qed simp
qed simp

lemma find_key_in:
  fixes k :: "'a \<Rightarrow> 'b::linorder"
  shows "sorted_wrt (<) (map k xs) \<Longrightarrow> x \<in> set xs \<Longrightarrow> find (\<lambda>y. k y = k x) xs = Some x"
proof (induction xs)
  case (Cons a xs)
  show ?case
  proof (cases "x = a")
    case False
    with Cons.prems have x: "x \<in> set xs" and "k a < k x" by auto
    then have "k a \<noteq> k x" by simp
    moreover from Cons.prems x have "find (\<lambda>y. k y = k x) xs = Some x"
      by (intro Cons.IH) simp_all
    ultimately show ?thesis by simp
  qed simp
qed simp

lemma find_key_Some:
  "find (\<lambda>y. k y = a) xs = Some x \<Longrightarrow> x \<in> set xs \<and> k x = a"
  by (induction xs) (auto split: if_splits)

lemma find_key_None:
  "find (\<lambda>y. k y = a) xs = None \<longleftrightarrow> a \<notin> k ` set xs"
  by (induction xs) auto

lemma find_key_filter:
  "find (\<lambda>y. k y = a) (filter (\<lambda>y. k y \<noteq> b) xs) =
   (if a = b then None else find (\<lambda>y. k y = a) xs)"
  by (induction xs) auto

lemma find_key_snoc:
  "find (\<lambda>y. k y = a) (xs @ [x]) =
   (case find (\<lambda>y. k y = a) xs of None \<Rightarrow> (if k x = a then Some x else None) | Some y \<Rightarrow> Some y)"
  by (induction xs) auto

lemma find_key_put:
  "k x = a \<Longrightarrow>
   find (\<lambda>y. k y = b) (map (\<lambda>y. if k y = a then x else y) xs) =
   (if b = a \<and> a \<in> k ` set xs then Some x else find (\<lambda>y. k y = b) xs)"
  by (induction xs) auto

end
