(* ===== verification/Models.thy ===== *)
theory Models
  imports Prelude
begin

text \<open>
  The data of the service (src/app/schemas.py ProductBase, src/app/models.py Product)
  and the database state (src/app/db.py).  \<open>product_base\<close> holds the four
  user-supplied fields; \<open>product\<close> extends it with the two server-assigned columns,
  exactly the attribute set that ProductRead reads back with \<open>from_attributes\<close>.
  The table \<open>products\<close> is the list of rows in rowid order: SQLite stores an
  \<open>INTEGER PRIMARY KEY\<close> table as a b-tree keyed by the id, so a scan returns the
  rows in ascending id.  Two behaviours of the SQLite default engine are written out:
  the id chosen for a row inserted without one (the largest id plus one, or 1 in an
  empty table), and the 64-bit range of integers that can be bound as parameters.
\<close>

section \<open>Records\<close>

record product_base =
  name :: string
  description :: "string option"
  price :: real
  stock :: int

record product = product_base +
  product_id :: int
  created_at :: timestamp

text \<open>The database behind the engine: the one table \<open>products\<close>.\<close>

record db =
  products :: "product list"

section \<open>SQLite column semantics\<close>

text \<open>
  Python integers are unbounded; the sqlite3 driver raises \<open>OverflowError\<close> when a
  parameter does not fit a signed 64-bit INTEGER.
\<close>

definition sql_int :: "int \<Rightarrow> bool" where
  "sql_int x \<longleftrightarrow> - (2 ^ 63) \<le> x \<and> x < 2 ^ 63"

text \<open>
  \<open>id = Column(Integer, primary_key=True)\<close> makes \<open>id\<close> the rowid alias; an INSERT
  that gives no id receives the largest id of the table plus one (1 when the table is
  empty).  The table is declared without AUTOINCREMENT, so the ids of deleted rows at
  the top of the table are handed out again.
\<close>

definition next_rowid :: "product list \<Rightarrow> int" where
  "next_rowid ps = (if ps = [] then 1 else Max (set (map product_id ps)) + 1)"

text \<open>\<open>SELECT \<dots> WHERE products.id = k\<close>: the row with that id, if any.\<close>

definition lookup_row :: "product list \<Rightarrow> int \<Rightarrow> product option" where
  "lookup_row ps k = find (\<lambda>p. product_id p = k) ps"

text \<open>The storage invariant of the table: ids strictly ascend (unique primary key, rowid order).\<close>

definition ids_sorted :: "product list \<Rightarrow> bool" where
  "ids_sorted ps \<longleftrightarrow> sorted_wrt (<) (map product_id ps)"

text \<open>The abstract view of the table: a finite map from ids to rows.\<close>

definition table_map :: "product list \<Rightarrow> int \<rightharpoonup> product" where
  "table_map ps = map_of (map (\<lambda>p. (product_id p, p)) ps)"

section \<open>Lemmas\<close>

lemma next_rowid_gt:
  "p \<in> set ps \<Longrightarrow> product_id p < next_rowid ps"
proof -
  assume p: "p \<in> set ps"
  then have "product_id p \<le> Max (set (map product_id ps))"
    by (intro Max_ge) auto
  with p show ?thesis by (auto simp: next_rowid_def)
qed

lemma next_rowid_fresh:
  "lookup_row ps (next_rowid ps) = None"
  by (auto simp: lookup_row_def find_key_None dest: next_rowid_gt)

lemma next_rowid_pos:
  "(\<forall>p\<in>set ps. 0 < product_id p) \<Longrightarrow> 0 < next_rowid ps"
proof (cases ps)
  case (Cons q qs)
  assume pos: "\<forall>p\<in>set ps. 0 < product_id p"
  with Cons have "0 < product_id q" by simp
  moreover from Cons have "product_id q < next_rowid ps" by (intro next_rowid_gt) simp
  ultimately show ?thesis by simp
qed (simp add: next_rowid_def)

lemma ids_sorted_snoc_next [table_inv]:
  "ids_sorted ps \<Longrightarrow> product_id p = next_rowid ps \<Longrightarrow> ids_sorted (ps @ [p])"
  unfolding ids_sorted_def by (rule sorted_keys_snoc) (auto dest: next_rowid_gt)

lemma ids_sorted_filter [table_inv]:
  "ids_sorted ps \<Longrightarrow> ids_sorted (filter P ps)"
  unfolding ids_sorted_def by (rule sorted_keys_filter)

lemma ids_sorted_put [table_inv]:
  "product_id p = k \<Longrightarrow> ids_sorted ps \<Longrightarrow>
   ids_sorted (map (\<lambda>q. if product_id q = k then p else q) ps)"
  unfolding ids_sorted_def by (simp only: map_key_put)

lemma table_map_find:
  "table_map ps k = lookup_row ps k"
  by (induction ps) (auto simp: table_map_def lookup_row_def)

lemma lookup_row_in:
  "ids_sorted ps \<Longrightarrow> p \<in> set ps \<Longrightarrow> lookup_row ps (product_id p) = Some p"
  unfolding ids_sorted_def lookup_row_def by (rule find_key_in)

lemma lookup_row_Some:
  "lookup_row ps k = Some p \<Longrightarrow> p \<in> set ps \<and> product_id p = k"
  unfolding lookup_row_def by (rule find_key_Some)

end
