(* ===== verification/Schemas.thy ===== *)
theory Schemas
  imports Models
begin

text \<open>
  The Pydantic schemas of src/app/schemas.py and the query-parameter constraints of
  src/app/main.py, as executable validators.  A request body is a \<open>payload\<close>: each of
  the four keys is absent (\<open>Unset\<close>), given as JSON null (\<open>Given None\<close>) or given a
  value (\<open>Given (Some v)\<close>); JSON decoding and type coercion happen before and are not
  modelled.  A validator returns the list of all field errors, in field order, as
  Pydantic does, or the validated value.  \<open>ProductUpdate\<close> keeps the payload itself:
  \<open>model_dump(exclude_unset=True)\<close> is exactly its \<open>Given\<close> fields, explicit nulls
  included.
\<close>

section \<open>Payloads and validation errors\<close>

datatype 'a patch = Unset | Given 'a

record payload =
  body_name :: "string option patch"
  body_description :: "string option patch"
  body_price :: "real option patch"
  body_stock :: "int option patch"

datatype verr_kind =
    Missing
  | String_type
  | Float_type
  | Int_type
  | String_too_short nat
  | String_too_long nat
  | Greater_than real
  | Greater_than_equal int
  | Less_than_equal int

datatype verr = VErr string verr_kind

section \<open>Field constraints\<close>

definition check_len :: "string \<Rightarrow> nat \<Rightarrow> nat \<Rightarrow> string \<Rightarrow> verr list" where
  "check_len loc lo hi s =
     (if length s < lo then [VErr loc (String_too_short lo)]
      else if hi < length s then [VErr loc (String_too_long hi)] else [])"

definition check_min_len :: "string \<Rightarrow> nat \<Rightarrow> string \<Rightarrow> verr list" where
  "check_min_len loc lo s = (if length s < lo then [VErr loc (String_too_short lo)] else [])"

definition check_max_len :: "string \<Rightarrow> nat \<Rightarrow> string \<Rightarrow> verr list" where
  "check_max_len loc hi s = (if hi < length s then [VErr loc (String_too_long hi)] else [])"

definition check_gt :: "string \<Rightarrow> real \<Rightarrow> real \<Rightarrow> verr list" where
  "check_gt loc b x = (if b < x then [] else [VErr loc (Greater_than b)])"

definition check_ge :: "string \<Rightarrow> int \<Rightarrow> int \<Rightarrow> verr list" where
  "check_ge loc b x = (if b \<le> x then [] else [VErr loc (Greater_than_equal b)])"

definition check_le :: "string \<Rightarrow> int \<Rightarrow> int \<Rightarrow> verr list" where
  "check_le loc b x = (if x \<le> b then [] else [VErr loc (Less_than_equal b)])"

text \<open>The constraints of ProductBase, one per field.\<close>

definition name_errors :: "string \<Rightarrow> verr list" where
  "name_errors s = check_len ''name'' 2 120 s"

definition description_errors :: "string \<Rightarrow> verr list" where
  "description_errors s = check_max_len ''description'' 255 s"

definition price_errors :: "real \<Rightarrow> verr list" where
  "price_errors p = check_gt ''price'' 0 p"

definition stock_errors :: "int \<Rightarrow> verr list" where
  "stock_errors n = check_ge ''stock'' 0 n"

text \<open>
  How a field declaration treats the three shapes of its key: required
  (\<open>Field(...)\<close>), with a default (\<open>Field(0, ...)\<close>), optional (\<open>Optional[...]\<close>,
  null allowed).  The constraints apply to a given value only.
\<close>

definition checked :: "('a \<Rightarrow> verr list) \<Rightarrow> 'a \<Rightarrow> verr list + 'a" where
  "checked chk v = (case chk v of [] \<Rightarrow> Inr v | es \<Rightarrow> Inl es)"

fun required :: "string \<Rightarrow> verr_kind \<Rightarrow> ('a \<Rightarrow> verr list) \<Rightarrow> 'a option patch \<Rightarrow> verr list + 'a" where
  "required loc k chk Unset = Inl [VErr loc Missing]"
| "required loc k chk (Given None) = Inl [VErr loc k]"
| "required loc k chk (Given (Some v)) = checked chk v"

fun defaulted :: "'a \<Rightarrow> string \<Rightarrow> verr_kind \<Rightarrow> ('a \<Rightarrow> verr list) \<Rightarrow> 'a option patch \<Rightarrow> verr list + 'a" where
  "defaulted d loc k chk Unset = Inr d"
| "defaulted d loc k chk (Given None) = Inl [VErr loc k]"
| "defaulted d loc k chk (Given (Some v)) = checked chk v"

fun nullable :: "('a \<Rightarrow> verr list) \<Rightarrow> 'a option patch \<Rightarrow> verr list + 'a option" where
  "nullable chk Unset = Inr None"
| "nullable chk (Given None) = Inr None"
| "nullable chk (Given (Some v)) = map_sum id Some (checked chk v)"

text \<open>The errors of an optional field of ProductUpdate: only a given value is checked.\<close>

fun patch_errors :: "('a \<Rightarrow> verr list) \<Rightarrow> 'a option patch \<Rightarrow> verr list" where
  "patch_errors chk (Given (Some v)) = chk v"
| "patch_errors chk _ = []"

section \<open>ProductCreate, ProductUpdate, ProductRead\<close>

definition validate_create :: "payload \<Rightarrow> verr list + product_base" where
  "validate_create b =
     (let rn = required ''name'' String_type name_errors (body_name b);
          rd = nullable description_errors (body_description b);
          rp = required ''price'' Float_type price_errors (body_price b);
          rs = defaulted 0 ''stock'' Int_type stock_errors (body_stock b)
      in case (rn, rd, rp, rs) of
           (Inr n, Inr d, Inr p, Inr s) \<Rightarrow>
             Inr \<lparr>name = n, description = d, price = p, stock = s\<rparr>
         | _ \<Rightarrow> Inl (errs rn @ errs rd @ errs rp @ errs rs))"

definition update_errors :: "payload \<Rightarrow> verr list" where
  "update_errors b =
     patch_errors name_errors (body_name b) @
     patch_errors description_errors (body_description b) @
     patch_errors price_errors (body_price b) @
     patch_errors stock_errors (body_stock b)"

definition validate_update :: "payload \<Rightarrow> verr list + payload" where
  "validate_update b = (let es = update_errors b in if es = [] then Inr b else Inl es)"

text \<open>
  ProductRead inherits the constraints of ProductBase; FastAPI validates every returned
  row against it (\<open>response_model\<close>), and a row that fails is a server error.
\<close>

definition read_errors :: "'a product_base_scheme \<Rightarrow> verr list" where
  "read_errors p =
     name_errors (name p) @
     (case description p of None \<Rightarrow> [] | Some d \<Rightarrow> description_errors d) @
     price_errors (price p) @ stock_errors (stock p)"

section \<open>Query parameters of \<open>GET /products\<close>\<close>

text \<open>
  \<open>skip: Query(0, ge=0)\<close>, \<open>limit: Query(3, ge=1, le=100)\<close>,
  \<open>name: Query(None, min_length=1)\<close>; an absent parameter takes its default.
\<close>

definition validate_list_query ::
  "int option \<Rightarrow> int option \<Rightarrow> string option \<Rightarrow> verr list + (int \<times> int \<times> string option)" where
  "validate_list_query sk lm nm =
     (let s = case sk of None \<Rightarrow> 0 | Some v \<Rightarrow> v;
          l = case lm of None \<Rightarrow> 3 | Some v \<Rightarrow> v;
          es = check_ge ''skip'' 0 s @ check_ge ''limit'' 1 l @ check_le ''limit'' 100 l @
               (case nm of None \<Rightarrow> [] | Some n \<Rightarrow> check_min_len ''name'' 1 n)
      in if es = [] then Inr (s, l, nm) else Inl es)"

section \<open>Lemmas\<close>

lemma checked_Inr [simp]: "checked chk v = Inr w \<longleftrightarrow> chk v = [] \<and> w = v"
  by (cases "chk v") (auto simp: checked_def)

lemma checked_Inl [simp]: "checked chk v = Inl es \<longleftrightarrow> chk v = es \<and> es \<noteq> []"
  by (cases "chk v") (auto simp: checked_def)

lemma check_len_Nil [simp]: "check_len loc lo hi s = [] \<longleftrightarrow> lo \<le> length s \<and> length s \<le> hi"
  by (simp add: check_len_def)

lemma check_min_len_Nil [simp]: "check_min_len loc lo s = [] \<longleftrightarrow> lo \<le> length s"
  by (simp add: check_min_len_def)

lemma check_max_len_Nil [simp]: "check_max_len loc hi s = [] \<longleftrightarrow> length s \<le> hi"
  by (simp add: check_max_len_def)

lemma check_gt_Nil [simp]: "check_gt loc b x = [] \<longleftrightarrow> b < x"
  by (simp add: check_gt_def)

lemma check_ge_Nil [simp]: "check_ge loc b x = [] \<longleftrightarrow> b \<le> x"
  by (simp add: check_ge_def)

lemma check_le_Nil [simp]: "check_le loc b x = [] \<longleftrightarrow> x \<le> b"
  by (simp add: check_le_def)

lemmas field_errors_defs = name_errors_def description_errors_def price_errors_def stock_errors_def

lemma read_errors_Nil:
  "read_errors p = [] \<longleftrightarrow>
     2 \<le> length (name p) \<and> length (name p) \<le> 120 \<and>
     (\<forall>d. description p = Some d \<longrightarrow> length d \<le> 255) \<and> 0 < price p \<and> 0 \<le> stock p"
  by (auto simp: read_errors_def field_errors_defs split: option.splits)

end
