(* ===== verification/Like.thy ===== *)
theory Like
  imports Prelude
begin

text \<open>
  The name filter of src/app/crud.py \<open>get_products\<close>:
  \<open>Product.name.ilike(f"%{name}%")\<close>.  On SQLite, SQLAlchemy renders \<open>ilike\<close> as
  \<open>lower(products.name) LIKE lower(?)\<close>; SQLite's built-in \<open>lower\<close> folds the ASCII
  letters only, and \<open>LIKE\<close> without an ESCAPE clause reads \<open>%\<close> as any sequence of
  characters and \<open>_\<close> as any single character.  The user's text is pasted into the
  pattern unescaped.  Characters are modelled as Isabelle's 8-bit \<open>char\<close>, so the
  theorems speak of ASCII names.
\<close>

section \<open>Definitions\<close>

definition lower_ascii :: "char \<Rightarrow> char" where
  "lower_ascii c = (let n = of_char c :: nat in if 65 \<le> n \<and> n \<le> 90 then char_of (n + 32) else c)"

definition sql_lower :: "string \<Rightarrow> string" where
  "sql_lower s = map lower_ascii s"

text \<open>SQLite's \<open>patternCompare\<close> for LIKE, pattern first, on already-folded text.\<close>

fun like_match :: "string \<Rightarrow> string \<Rightarrow> bool" where
  "like_match [] s = (s = [])"
| "like_match (c # p) [] = (c = CHR ''%'' \<and> like_match p [])"
| "like_match (c # p) (x # s) =
     (if c = CHR ''%'' then like_match p (x # s) \<or> like_match (c # p) s
      else (c = CHR ''_'' \<or> c = x) \<and> like_match p s)"

definition name_filter_pattern :: "string \<Rightarrow> string" where
  "name_filter_pattern s = CHR ''%'' # s @ [CHR ''%'']"

definition ilike :: "string \<Rightarrow> string \<Rightarrow> bool" where
  "ilike col pat \<longleftrightarrow> like_match (sql_lower pat) (sql_lower col)"

definition no_wildcards :: "string \<Rightarrow> bool" where
  "no_wildcards p \<longleftrightarrow> CHR ''%'' \<notin> set p \<and> CHR ''_'' \<notin> set p"

section \<open>Lemmas\<close>

lemma like_match_percent:
  "like_match (CHR ''%'' # p) s \<longleftrightarrow> (\<exists>u v. s = u @ v \<and> like_match p v)"
proof (induction s)
  case Nil
  then show ?case by simp
next
  case (Cons x s)
  have "like_match (CHR ''%'' # p) (x # s) \<longleftrightarrow> like_match p (x # s) \<or> (\<exists>u v. s = u @ v \<and> like_match p v)"
    using Cons.IH by simp
  also have "\<dots> \<longleftrightarrow> (\<exists>u v. x # s = u @ v \<and> like_match p v)"
    by (auto simp: Cons_eq_append_conv)
  finally show ?case .
qed

lemma like_match_literal:
  "no_wildcards q \<Longrightarrow> like_match (q @ p) s \<longleftrightarrow> (\<exists>v. s = q @ v \<and> like_match p v)"
proof (induction q arbitrary: s)
  case (Cons c q)
  then have c: "c \<noteq> CHR ''%''" "c \<noteq> CHR ''_''" and q: "no_wildcards q"
    by (auto simp: no_wildcards_def)
  show ?case
  proof (cases s)
    case (Cons x s')
    with c Cons.IH [OF q] show ?thesis by auto
  qed (use c in simp)
qed simp

lemma like_match_any: "like_match [CHR ''%''] s"
  by (simp add: like_match_percent)

lemma lower_ascii_wild:
  "lower_ascii c = CHR ''%'' \<longleftrightarrow> c = CHR ''%''"
  "lower_ascii c = CHR ''_'' \<longleftrightarrow> c = CHR ''_''"
proof -
  have up: "of_char (lower_ascii c) = (of_char c :: nat) \<or> 97 \<le> (of_char (lower_ascii c) :: nat)"
    by (auto simp: lower_ascii_def Let_def)
  show "lower_ascii c = CHR ''%'' \<longleftrightarrow> c = CHR ''%''"
    using up by (auto simp: lower_ascii_def Let_def)
  show "lower_ascii c = CHR ''_'' \<longleftrightarrow> c = CHR ''_''"
    using up by (auto simp: lower_ascii_def Let_def)
qed

lemma wild_in_lower:
  "CHR ''%'' \<in> set (sql_lower p) \<longleftrightarrow> CHR ''%'' \<in> set p"
  "CHR ''_'' \<in> set (sql_lower p) \<longleftrightarrow> CHR ''_'' \<in> set p"
  unfolding sql_lower_def set_map image_iff
  by (metis lower_ascii_wild(1), metis lower_ascii_wild(2))

lemma no_wildcards_lower: "no_wildcards (sql_lower p) \<longleftrightarrow> no_wildcards p"
  by (simp add: no_wildcards_def wild_in_lower)

lemma sql_lower_filter_pattern:
  "sql_lower (name_filter_pattern s) = CHR ''%'' # sql_lower s @ [CHR ''%'']"
  by (simp add: sql_lower_def name_filter_pattern_def lower_ascii_wild)

text \<open>The pattern \<open>%t%\<close> over a text without wildcards is a substring test.\<close>

lemma like_match_contains:
  assumes nw: "no_wildcards t"
  shows "like_match (CHR ''%'' # t @ [CHR ''%'']) c \<longleftrightarrow> sublist t c"
proof -
  have "like_match (CHR ''%'' # t @ [CHR ''%'']) c \<longleftrightarrow>
        (\<exists>u v. c = u @ v \<and> like_match (t @ [CHR ''%'']) v)"
    by (simp add: like_match_percent)
  also have "\<dots> \<longleftrightarrow> (\<exists>u w. c = u @ t @ w)"
    by (auto simp: like_match_literal [OF nw] like_match_any)
  finally show ?thesis by (simp add: sublist_def)
qed

section \<open>Properties of the name filter\<close>

text \<open>
  C8 (equivalence).  For a filter text without the LIKE wildcards \<open>%\<close> and \<open>_\<close>, the
  filter of \<open>get_products\<close> keeps exactly the rows whose name contains the text as a
  contiguous substring, ignoring the case of ASCII letters: the spec's
  case-insensitive substring match.
\<close>

theorem ilike_substring:
  assumes "no_wildcards s"
  shows "ilike col (name_filter_pattern s) \<longleftrightarrow> sublist (sql_lower s) (sql_lower col)"
proof -
  from assms have "no_wildcards (sql_lower s)" by (simp add: no_wildcards_lower)
  then show ?thesis by (simp add: ilike_def sql_lower_filter_pattern like_match_contains)
qed

theorem ilike_substring_witness:
  "no_wildcards ''PARA'' \<and>
   (ilike ''Paracetamol 500mg'' (name_filter_pattern ''PARA'') \<longleftrightarrow>
    sublist (sql_lower ''PARA'') (sql_lower ''Paracetamol 500mg''))"
proof -
  have h: "no_wildcards ''PARA''" by (simp add: no_wildcards_def)
  show ?thesis using h ilike_substring [OF h, of "''Paracetamol 500mg''"] by simp
qed

text \<open>
  C15 (divergence from the spec).  The filter text is pasted into the LIKE pattern
  unescaped, so a \<open>_\<close> in it matches any one character: for texts \<open>a\<close> and
  \<open>c\<close> without wildcards, \<open>name=a_c\<close> keeps every product whose name contains
  \<open>a\<close>, any character, then \<open>c\<close>, also when the name has no \<open>_\<close> at all and so
  does not contain the text, as the spec's substring match requires.
\<close>

theorem ilike_underscore_wildcard:
  assumes "no_wildcards a" "no_wildcards c"
  shows "ilike (u @ a @ x # c @ v) (name_filter_pattern (a @ CHR ''_'' # c)) \<and>
         (CHR ''_'' \<notin> set (u @ a @ x # c @ v) \<longrightarrow>
            \<not> sublist (sql_lower (a @ CHR ''_'' # c)) (sql_lower (u @ a @ x # c @ v)))"
proof
  from assms have na: "no_wildcards (sql_lower a)" and nc: "no_wildcards (sql_lower c)"
    by (simp_all add: no_wildcards_lower)
  have under: "lower_ascii (CHR ''_'') = CHR ''_''" by (simp add: lower_ascii_wild)
  have "like_match (sql_lower c @ [CHR ''%'']) (sql_lower c @ sql_lower v)"
    using nc by (simp add: like_match_literal like_match_any)
  then have "like_match (CHR ''_'' # sql_lower c @ [CHR ''%'']) (lower_ascii x # sql_lower c @ sql_lower v)"
    by simp
  then have "like_match (sql_lower a @ CHR ''_'' # sql_lower c @ [CHR ''%''])
               (sql_lower a @ lower_ascii x # sql_lower c @ sql_lower v)"
    using na by (simp add: like_match_literal)
  then show "ilike (u @ a @ x # c @ v) (name_filter_pattern (a @ CHR ''_'' # c))"
    unfolding ilike_def sql_lower_filter_pattern
    by (simp add: sql_lower_def under like_match_percent) blast
next
  show "CHR ''_'' \<notin> set (u @ a @ x # c @ v) \<longrightarrow>
        \<not> sublist (sql_lower (a @ CHR ''_'' # c)) (sql_lower (u @ a @ x # c @ v))"
  proof
    assume n: "CHR ''_'' \<notin> set (u @ a @ x # c @ v)"
    have "CHR ''_'' \<in> set (sql_lower (a @ CHR ''_'' # c))" by (simp add: wild_in_lower)
    moreover have "CHR ''_'' \<notin> set (sql_lower (u @ a @ x # c @ v))"
      using n wild_in_lower(2) [of "u @ a @ x # c @ v"] by blast
    ultimately show "\<not> sublist (sql_lower (a @ CHR ''_'' # c)) (sql_lower (u @ a @ x # c @ v))"
      using set_mono_sublist by blast
  qed
qed

theorem ilike_underscore_wildcard_witness:
  "no_wildcards ''a'' \<and> no_wildcards ''c'' \<and>
   ilike ''abc'' (name_filter_pattern ''a_c'') \<and> \<not> sublist (sql_lower ''a_c'') (sql_lower ''abc'')"
proof -
  have h: "no_wildcards ''a''" "no_wildcards ''c''" by (simp_all add: no_wildcards_def)
  have n: "CHR ''_'' \<notin> set ([] @ ''a'' @ CHR ''b'' # ''c'' @ [])" by simp
  from ilike_underscore_wildcard [OF h, where u = "[]" and x = "CHR ''b''" and v = "[]"] n h
  show ?thesis by simp
qed

end
