(* ===== verification/Crud.thy ===== *)
theory Crud
  imports Schemas Like "HOL-Library.Multiset"
begin

text \<open>
  The persistence layer, src/app/crud.py, over the SQLite table of \<open>Models\<close>.  Each
  function takes the database state and returns its result and the committed state;
  an exception of the driver or of the engine is an \<open>Inl\<close> value and leaves the
  state as it was, since the session is closed without a commit.  Two exceptions
  are reachable: \<open>OverflowError\<close> when a Python int outside the 64-bit range is bound
  as a parameter, and \<open>IntegrityError\<close> when a NOT NULL column (\<open>name\<close>,
  \<open>price\<close>, \<open>stock\<close>) is written as NULL, which \<open>update_product\<close> does for an
  explicit null in the request body.  \<open>update_product\<close> is modelled as the code
  runs it: the \<open>setattr\<close> loop over the dumped payload on the loaded ORM instance,
  then the flush; it is proved equal to an explicit field-wise merge.
\<close>

datatype db_error = IntegrityError string | OverflowError

section \<open>Queries\<close>

text \<open>\<open>db.query(Product).filter(Product.id == product_id).first()\<close>\<close>

definition get_product :: "db \<Rightarrow> int \<Rightarrow> db_error + product option" where
  "get_product d pid = (if sql_int pid then Inr (lookup_row (products d) pid) else Inl OverflowError)"

text \<open>
  \<open>get_products\<close>: the filter is applied when \<open>name\<close> is truthy (neither None nor
  empty), then \<open>ORDER BY id LIMIT limit OFFSET skip\<close>.  SQLite reads a negative
  OFFSET as 0 and a negative LIMIT as no limit.
\<close>

definition name_filter :: "string option \<Rightarrow> product list \<Rightarrow> product list" where
  "name_filter nm ps =
     (case nm of
        None \<Rightarrow> ps
      | Some s \<Rightarrow> if s = [] then ps else filter (\<lambda>p. ilike (name p) (name_filter_pattern s)) ps)"

definition sql_offset :: "int \<Rightarrow> 'a list \<Rightarrow> 'a list" where
  "sql_offset k xs = drop (nat k) xs"

definition sql_limit :: "int \<Rightarrow> 'a list \<Rightarrow> 'a list" where
  "sql_limit k xs = (if k < 0 then xs else take (nat k) xs)"

definition get_products :: "db \<Rightarrow> int \<Rightarrow> int \<Rightarrow> string option \<Rightarrow> db_error + product list" where
  "get_products d skip limit nm =
     (if sql_int skip \<and> sql_int limit
      then Inr (sql_limit limit (sql_offset skip (sort_key product_id (name_filter nm (products d)))))
      else Inl OverflowError)"

section \<open>Writes\<close>

text \<open>
  \<open>create_product\<close>: \<open>Product(**payload.model_dump())\<close>, then INSERT with the column
  defaults: the next rowid and the current time \<open>now\<close> for \<open>created_at\<close>.
\<close>

definition new_row :: "product_base \<Rightarrow> int \<Rightarrow> timestamp \<Rightarrow> product" where
  "new_row b i t =
     \<lparr>name = name b, description = description b, price = price b, stock = stock b,
      product_id = i, created_at = t\<rparr>"

definition create_product :: "db \<Rightarrow> timestamp \<Rightarrow> product_base \<Rightarrow> db_error + (product \<times> db)" where
  "create_product d now b =
     (if sql_int (stock b)
      then let p = new_row b (next_rowid (products d)) now
           in Inr (p, d\<lparr>products := products d @ [p]\<rparr>)
      else Inl OverflowError)"

text \<open>
  \<open>update_product\<close> works on the ORM instance that \<open>get_product\<close> loaded: an
  object with one attribute per column, any of which \<open>setattr\<close> may set to None.
\<close>

record orm_product =
  attr_name :: "string option"
  attr_description :: "string option"
  attr_price :: "real option"
  attr_stock :: "int option"
  attr_id :: int
  attr_created_at :: timestamp

definition load :: "product \<Rightarrow> orm_product" where
  "load p =
     \<lparr>attr_name = Some (name p), attr_description = description p, attr_price = Some (price p),
      attr_stock = Some (stock p), attr_id = product_id p, attr_created_at = created_at p\<rparr>"

text \<open>
  One entry \<open>key: value\<close> of \<open>payload.model_dump(exclude_unset=True)\<close>; the key
  fixes the type of the value, and None is an explicit null of the body.
\<close>

datatype update_item =
    Set_name "string option"
  | Set_description "string option"
  | Set_price "real option"
  | Set_stock "int option"

fun item_key :: "update_item \<Rightarrow> string" where
  "item_key (Set_name _) = ''name''"
| "item_key (Set_description _) = ''description''"
| "item_key (Set_price _) = ''price''"
| "item_key (Set_stock _) = ''stock''"

fun dump_field :: "('a \<Rightarrow> update_item) \<Rightarrow> 'a patch \<Rightarrow> update_item list" where
  "dump_field mk Unset = []"
| "dump_field mk (Given v) = [mk v]"

text \<open>The dumped dictionary holds the keys that were set, in the field order of ProductUpdate.\<close>

definition model_dump_unset :: "payload \<Rightarrow> update_item list" where
  "model_dump_unset u =
     dump_field Set_name (body_name u) @ dump_field Set_description (body_description u) @
     dump_field Set_price (body_price u) @ dump_field Set_stock (body_stock u)"

text \<open>\<open>setattr(product, key, value)\<close>\<close>

fun setattr :: "orm_product \<Rightarrow> update_item \<Rightarrow> orm_product" where
  "setattr ob (Set_name v) = ob\<lparr>attr_name := v\<rparr>"
| "setattr ob (Set_description v) = ob\<lparr>attr_description := v\<rparr>"
| "setattr ob (Set_price v) = ob\<lparr>attr_price := v\<rparr>"
| "setattr ob (Set_stock v) = ob\<lparr>attr_stock := v\<rparr>"

text \<open>\<open>for key, value in data.items(): setattr(product, key, value)\<close>\<close>

definition setattr_loop :: "update_item list \<Rightarrow> orm_product \<Rightarrow> orm_product" where
  "setattr_loop items ob = fold (\<lambda>it ob. setattr ob it) items ob"

text \<open>
  \<open>db.commit()\<close> flushes the instance as an UPDATE: the driver binds the values (a
  stock outside 64 bits raises \<open>OverflowError\<close>), then SQLite checks the NOT NULL
  columns in table order; the row read back by \<open>db.refresh\<close> is the one written.
\<close>

definition not_null :: "string \<Rightarrow> 'a option \<Rightarrow> db_error + 'a" where
  "not_null col v = (case v of None \<Rightarrow> Inl (IntegrityError col) | Some x \<Rightarrow> Inr x)"

definition flush_instance :: "orm_product \<Rightarrow> db_error + product" where
  "flush_instance ob =
     (if \<not> pred_option sql_int (attr_stock ob) then Inl OverflowError
      else sbind (not_null ''products.name'' (attr_name ob)) (\<lambda>n.
           sbind (not_null ''products.price'' (attr_price ob)) (\<lambda>pr.
           sbind (not_null ''products.stock'' (attr_stock ob)) (\<lambda>st.
             Inr \<lparr>name = n, description = attr_description ob, price = pr, stock = st,
                  product_id = attr_id ob, created_at = attr_created_at ob\<rparr>))))"

definition flush_update :: "product \<Rightarrow> payload \<Rightarrow> db_error + product" where
  "flush_update p u = flush_instance (setattr_loop (model_dump_unset u) (load p))"

text \<open>
  The reference for the loop: the explicit merge of a patch into the instance, which
  overwrites each attribute whose key was sent and keeps the others.
\<close>

fun patched :: "'a option patch \<Rightarrow> 'a option \<Rightarrow> 'a option" where
  "patched Unset old = old"
| "patched (Given v) old = v"

definition merge_patch :: "payload \<Rightarrow> orm_product \<Rightarrow> orm_product" where
  "merge_patch u ob =
     ob\<lparr>attr_name := patched (body_name u) (attr_name ob),
        attr_description := patched (body_description u) (attr_description ob),
        attr_price := patched (body_price u) (attr_price ob),
        attr_stock := patched (body_stock u) (attr_stock ob)\<rparr>"

definition replace_row :: "product \<Rightarrow> product list \<Rightarrow> product list" where
  "replace_row p ps = map (\<lambda>q. if product_id q = product_id p then p else q) ps"

definition update_product :: "db \<Rightarrow> product \<Rightarrow> payload \<Rightarrow> db_error + (product \<times> db)" where
  "update_product d p u =
     sbind (flush_update p u) (\<lambda>p'. Inr (p', d\<lparr>products := replace_row p' (products d)\<rparr>))"

text \<open>\<open>delete_product\<close>: \<open>DELETE FROM products WHERE id = ?\<close> for the loaded row.\<close>

definition delete_product :: "db \<Rightarrow> product \<Rightarrow> db" where
  "delete_product d p = d\<lparr>products := filter (\<lambda>q. product_id q \<noteq> product_id p) (products d)\<rparr>"

section \<open>The listing the spec describes\<close>

text \<open>
  The spec's contract for \<open>list(offset, limit, nameFilter?)\<close>: the records in
  identity order, those whose name contains the filter text ignoring case, then
  \<open>offset\<close> and \<open>limit\<close>.
\<close>

definition list_spec :: "product list \<Rightarrow> nat \<Rightarrow> nat \<Rightarrow> string option \<Rightarrow> product list" where
  "list_spec ps off n nm =
     take n (drop off (filter (\<lambda>p. case nm of None \<Rightarrow> True | Some s \<Rightarrow> sublist (sql_lower s) (sql_lower (name p)))
                               (sort_key product_id ps)))"

section \<open>The table invariant\<close>

text \<open>
  A stored row is readable when it passes ProductRead's constraints and its stock can
  be bound back as a 64-bit integer; the table keeps its ids ascending and positive.
\<close>

definition row_ok :: "product \<Rightarrow> bool" where
  "row_ok p \<longleftrightarrow> read_errors p = [] \<and> sql_int (stock p) \<and> 0 < product_id p"

definition db_wf :: "db \<Rightarrow> bool" where
  "db_wf d \<longleftrightarrow> ids_sorted (products d) \<and> list_all row_ok (products d)"

section \<open>Lemmas on each operation\<close>

lemma get_product_eq [table_simps]:
  "sql_int pid \<Longrightarrow> get_product d pid = Inr (lookup_row (products d) pid)"
  by (simp add: get_product_def)

lemma create_product_Inr [table_simps]:
  "create_product d now b = Inr (p, d') \<longleftrightarrow>
   sql_int (stock b) \<and> p = new_row b (next_rowid (products d)) now \<and>
   d' = d\<lparr>products := products d @ [p]\<rparr>"
  by (auto simp: create_product_def Let_def)

lemma not_null_Inr [simp]: "not_null c v = Inr x \<longleftrightarrow> v = Some x"
  by (cases v) (simp_all add: not_null_def)

lemma setattr_loop_dump:
  "setattr_loop (model_dump_unset u) ob = merge_patch u ob"
  by (cases "body_name u"; cases "body_description u"; cases "body_price u"; cases "body_stock u")
     (simp_all add: setattr_loop_def model_dump_unset_def merge_patch_def)

lemma flush_update_merge:
  "flush_update p u = flush_instance (merge_patch u (load p))"
  by (simp add: flush_update_def setattr_loop_dump)

lemma setattr_commute:
  "item_key x \<noteq> item_key y \<Longrightarrow> setattr (setattr ob x) y = setattr (setattr ob y) x"
  by (cases x; cases y) simp_all

lemma dump_item_given:
  "x \<in> set (model_dump_unset u) \<Longrightarrow>
   (case x of Set_name v \<Rightarrow> body_name u = Given v | Set_description v \<Rightarrow> body_description u = Given v
    | Set_price v \<Rightarrow> body_price u = Given v | Set_stock v \<Rightarrow> body_stock u = Given v)"
  by (cases "body_name u"; cases "body_description u"; cases "body_price u"; cases "body_stock u")
     (auto simp: model_dump_unset_def)

lemma dump_key_unique:
  "x \<in> set (model_dump_unset u) \<Longrightarrow> y \<in> set (model_dump_unset u) \<Longrightarrow> item_key x = item_key y \<Longrightarrow> x = y"
  by (drule dump_item_given)+ (cases x; cases y; simp)

lemmas flush_update_eval = flush_update_def setattr_loop_def model_dump_unset_def load_def flush_instance_def

lemma flush_update_Inr [table_simps]:
  "flush_update p u = Inr p' \<longleftrightarrow>
   pred_option sql_int (patched (body_stock u) (Some (stock p))) \<and>
   (\<exists>n pr st. patched (body_name u) (Some (name p)) = Some n \<and>
     patched (body_price u) (Some (price p)) = Some pr \<and>
     patched (body_stock u) (Some (stock p)) = Some st \<and>
     p' = p\<lparr>name := n, description := patched (body_description u) (description p),
            price := pr, stock := st\<rparr>)"
  by (auto simp: flush_update_merge flush_instance_def merge_patch_def load_def)

lemma update_product_Inr [table_simps]:
  "update_product d p u = Inr (p', d') \<longleftrightarrow>
   flush_update p u = Inr p' \<and> d' = d\<lparr>products := replace_row p' (products d)\<rparr>"
  by (auto simp: update_product_def)

lemma flush_update_id:
  "flush_update p u = Inr p' \<Longrightarrow> product_id p' = product_id p \<and> created_at p' = created_at p"
  by (auto simp: flush_update_Inr)

lemma row_ok_new_row:
  "read_errors b = [] \<Longrightarrow> sql_int (stock b) \<Longrightarrow> 0 < i \<Longrightarrow> row_ok (new_row b i t)"
  by (simp add: row_ok_def new_row_def read_errors_def)

lemma patched_ok:
  "(\<And>v. x = Given (Some v) \<Longrightarrow> P v) \<Longrightarrow> pred_option P old \<Longrightarrow> pred_option P (patched x old)"
  by (cases x) (auto simp: pred_option_def)

lemma read_errors_Nil_iff:
  "read_errors p = [] \<longleftrightarrow>
   name_errors (name p) = [] \<and> pred_option (\<lambda>v. description_errors v = []) (description p) \<and>
   price_errors (price p) = [] \<and> stock_errors (stock p) = []"
  by (cases "description p") (simp_all add: read_errors_def)

lemma patch_errors_Nil:
  "patch_errors chk x = [] \<Longrightarrow> x = Given (Some v) \<Longrightarrow> chk v = []"
  by simp

lemma update_errors_Nil:
  "update_errors u = [] \<longleftrightarrow>
   patch_errors name_errors (body_name u) = [] \<and> patch_errors description_errors (body_description u) = [] \<and>
   patch_errors price_errors (body_price u) = [] \<and> patch_errors stock_errors (body_stock u) = []"
  by (simp add: update_errors_def)

lemma list_all_put:
  "list_all P xs \<Longrightarrow> P x \<Longrightarrow> list_all P (map (\<lambda>q. if Q q then x else q) xs)"
  by (induction xs) auto

subsection \<open>Each write keeps the invariant\<close>

lemma create_product_wf [table_inv]:
  assumes "db_wf d" "read_errors b = []" "create_product d now b = Inr (p, d')"
  shows "db_wf d'"
proof -
  from assms(3) have p: "p = new_row b (next_rowid (products d)) now"
    and d': "d' = d\<lparr>products := products d @ [p]\<rparr>" and st: "sql_int (stock b)"
    by (simp_all add: create_product_Inr)
  from assms(1) have "0 < next_rowid (products d)"
    by (intro next_rowid_pos) (auto simp: db_wf_def row_ok_def list_all_iff)
  with assms(2) st p have "row_ok p" by (simp add: row_ok_new_row)
  moreover from assms(1) p have "ids_sorted (products d @ [p])"
    by (intro ids_sorted_snoc_next) (simp_all add: db_wf_def new_row_def)
  ultimately show ?thesis using assms(1) d' by (simp add: db_wf_def)
qed

lemma flush_update_row_ok:
  assumes "row_ok p" "update_errors u = []" "flush_update p u = Inr p'"
  shows "row_ok p'"
proof -
  from assms(2) have e: "patch_errors name_errors (body_name u) = []"
    "patch_errors description_errors (body_description u) = []"
    "patch_errors price_errors (body_price u) = []" "patch_errors stock_errors (body_stock u) = []"
    by (simp_all add: update_errors_Nil)
  from assms(1) have r: "name_errors (name p) = []" "pred_option (\<lambda>v. description_errors v = []) (description p)"
    "price_errors (price p) = []" "stock_errors (stock p) = []"
    by (simp_all add: row_ok_def read_errors_Nil_iff)
  from assms(3) obtain n pr st where
    n: "patched (body_name u) (Some (name p)) = Some n" and
    pr: "patched (body_price u) (Some (price p)) = Some pr" and
    st: "patched (body_stock u) (Some (stock p)) = Some st" and
    sq: "pred_option sql_int (patched (body_stock u) (Some (stock p)))" and
    p': "p' = p\<lparr>name := n, description := patched (body_description u) (description p),
                 price := pr, stock := st\<rparr>"
    by (auto simp: flush_update_Inr)
  have "pred_option (\<lambda>v. name_errors v = []) (patched (body_name u) (Some (name p)))"
    by (rule patched_ok) (use e(1) r(1) in auto)
  moreover have "pred_option (\<lambda>v. description_errors v = []) (patched (body_description u) (description p))"
    by (rule patched_ok) (use e(2) r(2) in auto)
  moreover have "pred_option (\<lambda>v. price_errors v = []) (patched (body_price u) (Some (price p)))"
    by (rule patched_ok) (use e(3) r(3) in auto)
  moreover have "pred_option (\<lambda>v. stock_errors v = []) (patched (body_stock u) (Some (stock p)))"
    by (rule patched_ok) (use e(4) r(4) in auto)
  ultimately show ?thesis
    using n pr st sq assms(1) by (simp add: p' row_ok_def read_errors_Nil_iff)
qed

lemma update_product_wf [table_inv]:
  assumes "db_wf d" "p \<in> set (products d)" "update_errors u = []" "update_product d p u = Inr (p', d')"
  shows "db_wf d'"
proof -
  from assms(4) have f: "flush_update p u = Inr p'" and d': "d' = d\<lparr>products := replace_row p' (products d)\<rparr>"
    by (simp_all add: update_product_Inr)
  from assms(1,2) have "row_ok p" by (simp add: db_wf_def list_all_iff)
  from this assms(3) f have ok: "row_ok p'" by (rule flush_update_row_ok)
  from assms(1) have "ids_sorted (replace_row p' (products d))"
    unfolding replace_row_def db_wf_def by (intro ids_sorted_put) simp_all
  moreover from assms(1) ok have "list_all row_ok (replace_row p' (products d))"
    unfolding replace_row_def db_wf_def by (intro list_all_put) simp_all
  ultimately show ?thesis by (simp add: d' db_wf_def)
qed

lemma delete_product_wf [table_inv]:
  "db_wf d \<Longrightarrow> db_wf (delete_product d p)"
  by (simp add: db_wf_def delete_product_def ids_sorted_filter list_all_iff)

subsection \<open>The table as a map\<close>

lemma lookup_row_snoc:
  "lookup_row (ps @ [p]) k = (case lookup_row ps k of None \<Rightarrow> (if product_id p = k then Some p else None) | Some q \<Rightarrow> Some q)"
  by (simp add: lookup_row_def find_key_snoc)

lemma lookup_row_replace:
  "p' \<in> set ps \<Longrightarrow> product_id p = product_id p' \<Longrightarrow>
   lookup_row (replace_row p ps) k = (if k = product_id p then Some p else lookup_row ps k)"
  unfolding lookup_row_def replace_row_def by (subst find_key_put) auto

lemma lookup_row_delete:
  "lookup_row (filter (\<lambda>q. product_id q \<noteq> j) ps) k = (if k = j then None else lookup_row ps k)"
  by (simp add: lookup_row_def find_key_filter)

subsection \<open>Pages of the listing\<close>

lemma name_filter_sub:
  "set (name_filter nm ps) \<subseteq> set ps \<and> (ids_sorted ps \<longrightarrow> ids_sorted (name_filter nm ps))"
  by (auto simp: name_filter_def ids_sorted_filter split: option.splits)

lemma name_filter_match:
  "p \<in> set (name_filter (Some s) ps) \<Longrightarrow> s \<noteq> [] \<Longrightarrow> ilike (name p) (name_filter_pattern s)"
  by (simp add: name_filter_def)

lemma sort_key_ids_sorted:
  "ids_sorted ps \<Longrightarrow> sort_key product_id ps = ps"
  by (rule sort_key_id_if_sorted) (simp add: ids_sorted_def strict_sorted_iff)

lemma ids_sorted_take_drop:
  "ids_sorted ps \<Longrightarrow> ids_sorted (take n (drop m ps))"
  by (simp add: ids_sorted_def take_map [symmetric] drop_map [symmetric])

lemma name_filter_spec:
  assumes "pred_option no_wildcards nm"
  shows "name_filter nm ps =
           filter (\<lambda>p. case nm of None \<Rightarrow> True | Some s \<Rightarrow> sublist (sql_lower s) (sql_lower (name p))) ps"
proof (cases nm)
  case (Some s)
  with assms have "no_wildcards (sql_lower s)" by (simp add: no_wildcards_lower)
  then have "ilike (name p) (name_filter_pattern s) \<longleftrightarrow> sublist (sql_lower s) (sql_lower (name p))" for p
    by (simp add: ilike_def sql_lower_filter_pattern like_match_contains)
  with Some show ?thesis by (auto simp: name_filter_def sql_lower_def intro: filter_True filter_cong)
qed (simp add: name_filter_def)

section \<open>Properties of the persistence layer\<close>

text \<open>
  C2 (functional: the partial-update law).  A successful \<open>update_product\<close> sets each
  field to the value of its key when the key was sent and keeps it otherwise; the id
  and the creation time never change; the stored row is replaced by the new one.
\<close>

theorem update_product_partial:
  assumes "update_product d p u = Inr (p', d')"
  shows "Some (name p') = patched (body_name u) (Some (name p)) \<and>
         description p' = patched (body_description u) (description p) \<and>
         Some (price p') = patched (body_price u) (Some (price p)) \<and>
         Some (stock p') = patched (body_stock u) (Some (stock p)) \<and>
         product_id p' = product_id p \<and> created_at p' = created_at p \<and>
         products d' = replace_row p' (products d)"
  using assms by (auto simp: update_product_Inr flush_update_Inr)

theorem update_product_partial_witness:
  "let p = \<lparr>name = ''Ketorolaco 10mg'', description = Some ''Analgesico'', price = 21 / 4,
            stock = 33, product_id = 1, created_at = 0\<rparr>;
       u = \<lparr>body_name = Unset, body_description = Unset, body_price = Given (Some 6),
            body_stock = Given (Some 40)\<rparr>;
       p' = p\<lparr>price := 6, stock := 40\<rparr>
   in update_product \<lparr>products = [p]\<rparr> p u = Inr (p', \<lparr>products = [p']\<rparr>) \<and>
      name p' = name p \<and> description p' = description p \<and> price p' = 6 \<and> stock p' = 40"
proof -
  define p where "p = \<lparr>name = ''Ketorolaco 10mg'', description = Some ''Analgesico'',
    price = 21 / 4 :: real, stock = 33 :: int, product_id = 1 :: int, created_at = 0 :: nat\<rparr>"
  define u where "u = \<lparr>body_name = Unset, body_description = Unset,
    body_price = Given (Some (6 :: real)), body_stock = Given (Some (40 :: int))\<rparr>"
  have h: "update_product \<lparr>products = [p]\<rparr> p u = Inr (p\<lparr>price := 6, stock := 40\<rparr>,
             \<lparr>products = [p\<lparr>price := 6, stock := 40\<rparr>]\<rparr>)"
    by (simp add: p_def u_def update_product_def flush_update_eval replace_row_def sql_int_def not_null_def)
  from update_product_partial [OF h] h show ?thesis
    by (simp add: p_def u_def Let_def)
qed

text \<open>
  C9 (refinement).  Read through \<open>table_map\<close>, the table is a finite map from ids to
  rows and the three writes are the map operations: \<open>create_product\<close> adds the new row
  under an id that was free, \<open>update_product\<close> overwrites the entry of the loaded row,
  \<open>delete_product\<close> removes it.
\<close>

theorem crud_refines_map:
  "(create_product d now b = Inr (p, d1) \<longrightarrow>
      table_map (products d) (product_id p) = None \<and>
      table_map (products d1) = (table_map (products d))(product_id p \<mapsto> p)) \<and>
   (q \<in> set (products d) \<and> update_product d q u = Inr (q', d2) \<longrightarrow>
      table_map (products d2) = (table_map (products d))(product_id q \<mapsto> q')) \<and>
   table_map (products (delete_product d q)) = (table_map (products d))(product_id q := None)"
proof (intro conjI impI)
  assume c: "create_product d now b = Inr (p, d1)"
  then have p: "product_id p = next_rowid (products d)" and d1: "products d1 = products d @ [p]"
    by (auto simp: create_product_Inr new_row_def)
  then show "table_map (products d) (product_id p) = None"
    by (simp add: table_map_find next_rowid_fresh)
  show "table_map (products d1) = (table_map (products d))(product_id p \<mapsto> p)"
    using p next_rowid_fresh [of "products d"]
    by (auto simp: fun_eq_iff table_map_find d1 lookup_row_snoc split: option.split)
next
  assume u: "q \<in> set (products d) \<and> update_product d q u = Inr (q', d2)"
  then have "products d2 = replace_row q' (products d)" and "product_id q' = product_id q"
    by (auto simp: update_product_Inr dest: flush_update_id)
  with u show "table_map (products d2) = (table_map (products d))(product_id q \<mapsto> q')"
    by (auto simp: fun_eq_iff table_map_find lookup_row_replace)
next
  show "table_map (products (delete_product d q)) = (table_map (products d))(product_id q := None)"
    by (simp add: fun_eq_iff table_map_find delete_product_def lookup_row_delete)
qed

text \<open>
  C7 (functional: paging and filtering).  On a well-formed table, a page returned by
  \<open>get_products\<close> with a non-negative limit is the slice \<open>[skip, skip + limit)\<close> of the
  filtered rows in id order: at most \<open>limit\<close> rows, ascending by id, all stored, and
  each matching the name filter when one was given.
\<close>

theorem get_products_page:
  assumes "db_wf d" "get_products d skip limit nm = Inr ps" "0 \<le> limit"
  shows "ps = take (nat limit) (drop (nat skip) (name_filter nm (products d))) \<and>
         length ps \<le> nat limit \<and> ids_sorted ps \<and> set ps \<subseteq> set (products d) \<and>
         (\<forall>s. nm = Some s \<and> s \<noteq> [] \<longrightarrow> (\<forall>p\<in>set ps. ilike (name p) (name_filter_pattern s)))"
proof -
  let ?f = "name_filter nm (products d)"
  from assms(1) have f: "set ?f \<subseteq> set (products d)" "ids_sorted ?f"
    using name_filter_sub by (auto simp: db_wf_def)
  from assms(2,3) f(2) have ps: "ps = take (nat limit) (drop (nat skip) ?f)"
    by (auto simp: get_products_def sql_limit_def sql_offset_def sort_key_ids_sorted split: if_splits)
  have sub: "set ps \<subseteq> set ?f"
    unfolding ps by (meson order_trans set_drop_subset set_take_subset)
  show ?thesis
  proof (intro conjI allI impI ballI)
    show "ids_sorted ps" unfolding ps using f(2) by (rule ids_sorted_take_drop)
  next
    fix s p assume "nm = Some s \<and> s \<noteq> []" "p \<in> set ps"
    with sub show "ilike (name p) (name_filter_pattern s)"
      by (auto intro: name_filter_match)
  qed (use ps sub f(1) in auto)
qed

theorem crud_refines_map_witness:
  "let r = \<lparr>name = ''Paracetamol 500mg'', description = None, price = 3 / 2, stock = 10,
            product_id = 1, created_at = 0\<rparr>;
       b = \<lparr>name = ''Ketorolaco 10mg'', description = Some ''Analgesico'', price = 21 / 4,
            stock = 33\<rparr>;
       u = \<lparr>body_name = Unset, body_description = Given None, body_price = Unset,
            body_stock = Given (Some 0)\<rparr>;
       d = \<lparr>products = [r]\<rparr>; r' = r\<lparr>stock := 0\<rparr>
   in create_product d 7 b = Inr (new_row b 2 7, \<lparr>products = [r, new_row b 2 7]\<rparr>) \<and>
      update_product d r u = Inr (r', \<lparr>products = [r']\<rparr>) \<and>
      table_map [r, new_row b 2 7] = [1 \<mapsto> r, 2 \<mapsto> new_row b 2 7] \<and>
      table_map [r'] = [1 \<mapsto> r'] \<and> table_map [] = Map.empty"
proof -
  define r where "r = \<lparr>name = ''Paracetamol 500mg'', description = None, price = 3 / 2 :: real,
    stock = 10 :: int, product_id = 1 :: int, created_at = 0 :: nat\<rparr>"
  define b where "b = \<lparr>name = ''Ketorolaco 10mg'', description = Some ''Analgesico'',
    price = 21 / 4 :: real, stock = 33 :: int\<rparr>"
  define u where "u = \<lparr>body_name = Unset, body_description = Given (None :: string option),
    body_price = Unset :: real option patch, body_stock = Given (Some (0 :: int))\<rparr>"
  have c: "create_product \<lparr>products = [r]\<rparr> 7 b = Inr (new_row b 2 7, \<lparr>products = [r, new_row b 2 7]\<rparr>)"
    by (simp add: create_product_def next_rowid_def r_def b_def sql_int_def Let_def)
  have up: "update_product \<lparr>products = [r]\<rparr> r u = Inr (r\<lparr>stock := 0\<rparr>, \<lparr>products = [r\<lparr>stock := 0\<rparr>]\<rparr>)"
    by (simp add: update_product_def flush_update_eval replace_row_def r_def u_def sql_int_def not_null_def)
  have "r \<in> set (products \<lparr>products = [r]\<rparr>)" by simp
  with crud_refines_map [of "\<lparr>products = [r]\<rparr>" 7 b "new_row b 2 7" "\<lparr>products = [r, new_row b 2 7]\<rparr>"
      r u "r\<lparr>stock := 0\<rparr>" "\<lparr>products = [r\<lparr>stock := 0\<rparr>]\<rparr>"] c up
  have "table_map [r, new_row b 2 7] = (table_map [r])(2 \<mapsto> new_row b 2 7)"
    and "table_map [r\<lparr>stock := 0\<rparr>] = (table_map [r])(1 \<mapsto> r\<lparr>stock := 0\<rparr>)"
    and "table_map (filter (\<lambda>q. product_id q \<noteq> 1) [r]) = (table_map [r])(1 := None)"
    by (simp_all add: new_row_def r_def delete_product_def)
  moreover have "table_map [r] = [1 \<mapsto> r]" by (simp add: table_map_def r_def)
  ultimately show ?thesis using c up by (simp add: Let_def r_def b_def u_def)
qed

theorem get_products_page_witness:
  "let r1 = \<lparr>name = ''Paracetamol 500mg'', description = None, price = 3 / 2, stock = 10,
             product_id = 1, created_at = 0\<rparr>;
       r2 = \<lparr>name = ''Ibuprofeno 400mg'', description = Some ''Antiinflamatorio'', price = 2,
             stock = 5, product_id = 2, created_at = 0\<rparr>;
       d = \<lparr>products = [r1, r2]\<rparr>
   in db_wf d \<and> get_products d 1 1 None = Inr [r2] \<and> ids_sorted [r2] \<and> length [r2] \<le> nat 1"
proof -
  define r1 where "r1 = \<lparr>name = ''Paracetamol 500mg'', description = None :: string option,
    price = 3 / 2 :: real, stock = 10 :: int, product_id = 1 :: int, created_at = 0 :: nat\<rparr>"
  define r2 where "r2 = \<lparr>name = ''Ibuprofeno 400mg'', description = Some ''Antiinflamatorio'',
    price = 2 :: real, stock = 5 :: int, product_id = 2 :: int, created_at = 0 :: nat\<rparr>"
  have w: "db_wf \<lparr>products = [r1, r2]\<rparr>"
    by (simp add: db_wf_def row_ok_def read_errors_def field_errors_defs ids_sorted_def
        sql_int_def r1_def r2_def check_len_def check_max_len_def check_gt_def check_ge_def)
  have g: "get_products \<lparr>products = [r1, r2]\<rparr> 1 1 None = Inr [r2]"
    by (simp add: get_products_def name_filter_def sql_limit_def sql_offset_def sql_int_def r1_def r2_def)
  from get_products_page [OF w g] w g show ?thesis
    by (simp add: Let_def r1_def r2_def)
qed

text \<open>
  C20 (equivalence: the \<open>setattr\<close> loop is the explicit merge).  Whatever order the
  loop visits the keys of \<open>model_dump(exclude_unset=True)\<close> in, it leaves the ORM
  instance equal to the field-wise merge of the patch: each sent key overwrites its
  attribute, explicit nulls included, and the other attributes keep their values.
\<close>

theorem setattr_loop_any_order:
  assumes "mset items = mset (model_dump_unset u)"
  shows "setattr_loop items ob = merge_patch u ob"
proof -
  have "fold (\<lambda>it ob. setattr ob it) (model_dump_unset u) = fold (\<lambda>it ob. setattr ob it) items"
  proof (rule fold_multiset_equiv)
    fix x y assume "x \<in> set (model_dump_unset u)" "y \<in> set (model_dump_unset u)"
    then show "(\<lambda>ob. setattr ob x) \<circ> (\<lambda>ob. setattr ob y) = (\<lambda>ob. setattr ob y) \<circ> (\<lambda>ob. setattr ob x)"
      by (cases "item_key x = item_key y") (auto simp: fun_eq_iff dest: dump_key_unique intro: setattr_commute)
  qed (use assms in simp)
  then show ?thesis by (metis setattr_loop_def setattr_loop_dump)
qed

theorem setattr_loop_any_order_witness:
  "let u = \<lparr>body_name = Given (Some ''Ketorolaco''), body_description = Given None, body_price = Unset,
            body_stock = Given (Some 40)\<rparr>;
       ob = load \<lparr>name = ''Ketorolaco 10mg'', description = Some ''Analgesico'', price = 21 / 4,
            stock = 33, product_id = 1, created_at = 0\<rparr>;
       items = [Set_stock (Some 40), Set_description None, Set_name (Some ''Ketorolaco'')]
   in mset items = mset (model_dump_unset u) \<and>
      setattr_loop items ob = ob\<lparr>attr_name := Some ''Ketorolaco'', attr_description := None,
                                 attr_stock := Some 40\<rparr>"
proof -
  define u where "u = \<lparr>body_name = Given (Some ''Ketorolaco''), body_description = Given (None :: string option),
    body_price = Unset :: real option patch, body_stock = Given (Some (40 :: int))\<rparr>"
  define items where "items = [Set_stock (Some 40), Set_description None, Set_name (Some ''Ketorolaco'')]"
  have m: "mset items = mset (model_dump_unset u)"
    by (simp add: items_def u_def model_dump_unset_def)
  from setattr_loop_any_order [OF m] m show ?thesis
    by (simp add: Let_def u_def items_def merge_patch_def)
qed

text \<open>
  C30 (refinement of the spec's listing).  For a filter text without LIKE wildcards
  and a non-negative offset and limit within 64 bits, \<open>get_products\<close> returns
  exactly the spec's page: identity order, case-insensitive substring filter,
  offset, limit.  It holds on every table, sorted or not, since the query orders by
  id itself.
\<close>

theorem get_products_refines_spec:
  assumes "sql_int skip" "sql_int limit" "0 \<le> limit" "pred_option no_wildcards nm"
  shows "get_products d skip limit nm = Inr (list_spec (products d) (nat skip) (nat limit) nm)"
  using assms by (simp add: get_products_def list_spec_def name_filter_spec filter_sort
      sql_limit_def sql_offset_def)

theorem get_products_refines_spec_witness:
  "let r1 = \<lparr>name = ''Paracetamol 500mg'', description = None, price = 3 / 2, stock = 10,
             product_id = 1, created_at = 0\<rparr>;
       r2 = \<lparr>name = ''Ibuprofeno 400mg'', description = None, price = 2, stock = 5,
             product_id = 4, created_at = 0\<rparr>
   in sql_int 0 \<and> sql_int 3 \<and> pred_option no_wildcards (Some ''PARA'') \<and>
      get_products \<lparr>products = [r2, r1]\<rparr> 0 3 (Some ''PARA'') = Inr (list_spec [r2, r1] 0 3 (Some ''PARA'')) \<and>
      list_spec [r2, r1] 0 3 (Some ''PARA'') = [r1]"
proof -
  define r1 where "r1 = \<lparr>name = ''Paracetamol 500mg'', description = None :: string option,
    price = 3 / 2 :: real, stock = 10 :: int, product_id = 1 :: int, created_at = 0 :: nat\<rparr>"
  define r2 where "r2 = \<lparr>name = ''Ibuprofeno 400mg'', description = None :: string option,
    price = 2 :: real, stock = 5 :: int, product_id = 4 :: int, created_at = 0 :: nat\<rparr>"
  have h: "sql_int 0" "sql_int 3" "0 \<le> (3 :: int)" "pred_option no_wildcards (Some ''PARA'')"
    by (simp_all add: sql_int_def no_wildcards_def)
  have l: "list_spec [r2, r1] 0 3 (Some ''PARA'') = [r1]"
    unfolding r1_def r2_def by code_simp
  from get_products_refines_spec [OF h, of "\<lparr>products = [r2, r1]\<rparr>"] h l show ?thesis
    by (simp add: Let_def r1_def [symmetric] r2_def [symmetric])
qed

end
