(* ===== verification/Routes.thy ===== *)
theory Routes
  imports Crud
begin

text \<open>
  The HTTP layer, src/app/main.py.  A request is one of the five endpoints with its
  path, query and body already decoded.  FastAPI first validates every parameter and
  the body against their declarations (\<open>dispatch\<close>): a failure is a 422 response with
  all field errors, and the endpoint function never runs.  The endpoint functions
  (\<open>list_products\<close>, \<open>get_product_endpoint\<close>, \<open>create_product_endpoint\<close>,
  \<open>update_product_endpoint\<close>, \<open>delete_product_endpoint\<close>) follow the source: they
  call \<open>Crud\<close>, turn an absent row into 404 \<open>Producto no encontrado\<close>, and return
  the row, which FastAPI validates against \<open>response_model=ProductRead\<close> before it
  sends it (a failure there is a 500 after the commit).  An exception of the database
  is a 500 and no commit.  Each request runs in its own session (\<open>get_db\<close>), so a
  sequence of requests is a fold of \<open>dispatch\<close> over the database state.
\<close>

section \<open>Requests and responses\<close>

datatype request =
    List_products "int option" "int option" "string option"
  | Get_product int
  | Create_product payload
  | Update_product int payload
  | Delete_product int

datatype body =
    Product_list "product list"
  | Product_body product
  | Detail string
  | Validation_errors "verr list"
  | No_content
  | Internal_error

record response =
  status :: nat
  resp_body :: body

definition not_found :: response where
  "not_found = \<lparr>status = 404, resp_body = Detail ''Producto no encontrado''\<rparr>"

definition unprocessable :: "verr list \<Rightarrow> response" where
  "unprocessable es = \<lparr>status = 422, resp_body = Validation_errors es\<rparr>"

definition server_error :: response where
  "server_error = \<lparr>status = 500, resp_body = Internal_error\<rparr>"

definition no_content :: response where
  "no_content = \<lparr>status = 204, resp_body = No_content\<rparr>"

text \<open>Serialisation through \<open>response_model\<close>: ProductRead or \<open>List[ProductRead]\<close>.\<close>

definition respond_one :: "nat \<Rightarrow> product \<Rightarrow> response" where
  "respond_one s p =
     (if read_errors p = [] then \<lparr>status = s, resp_body = Product_body p\<rparr> else server_error)"

definition respond_list :: "product list \<Rightarrow> response" where
  "respond_list ps =
     (if list_all (\<lambda>p. read_errors p = []) ps then \<lparr>status = 200, resp_body = Product_list ps\<rparr>
      else server_error)"

section \<open>Endpoints\<close>

definition list_products :: "db \<Rightarrow> int \<Rightarrow> int \<Rightarrow> string option \<Rightarrow> response \<times> db" where
  "list_products d skip limit nm =
     (case get_products d skip limit nm of
        Inl _ \<Rightarrow> (server_error, d)
      | Inr ps \<Rightarrow> (respond_list ps, d))"

definition get_product_endpoint :: "db \<Rightarrow> int \<Rightarrow> response \<times> db" where
  "get_product_endpoint d pid =
     (case get_product d pid of
        Inl _ \<Rightarrow> (server_error, d)
      | Inr None \<Rightarrow> (not_found, d)
      | Inr (Some p) \<Rightarrow> (respond_one 200 p, d))"

definition create_product_endpoint :: "db \<Rightarrow> timestamp \<Rightarrow> product_base \<Rightarrow> response \<times> db" where
  "create_product_endpoint d now b =
     (case create_product d now b of
        Inl _ \<Rightarrow> (server_error, d)
      | Inr (p, d') \<Rightarrow> (respond_one 201 p, d'))"

definition update_product_endpoint :: "db \<Rightarrow> int \<Rightarrow> payload \<Rightarrow> response \<times> db" where
  "update_product_endpoint d pid u =
     (case get_product d pid of
        Inl _ \<Rightarrow> (server_error, d)
      | Inr None \<Rightarrow> (not_found, d)
      | Inr (Some p) \<Rightarrow>
          (case update_product d p u of
             Inl _ \<Rightarrow> (server_error, d)
           | Inr (p', d') \<Rightarrow> (respond_one 200 p', d')))"

definition delete_product_endpoint :: "db \<Rightarrow> int \<Rightarrow> response \<times> db" where
  "delete_product_endpoint d pid =
     (case get_product d pid of
        Inl _ \<Rightarrow> (server_error, d)
      | Inr None \<Rightarrow> (not_found, d)
      | Inr (Some p) \<Rightarrow> (no_content, delete_product d p))"

section \<open>Request validation and dispatch\<close>

fun dispatch :: "timestamp \<Rightarrow> request \<Rightarrow> db \<Rightarrow> response \<times> db" where
  "dispatch now (List_products sk lm nm) d =
     (case validate_list_query sk lm nm of
        Inl es \<Rightarrow> (unprocessable es, d)
      | Inr (s, l, n) \<Rightarrow> list_products d s l n)"
| "dispatch now (Get_product pid) d = get_product_endpoint d pid"
| "dispatch now (Create_product b) d =
     (case validate_create b of
        Inl es \<Rightarrow> (unprocessable es, d)
      | Inr pb \<Rightarrow> create_product_endpoint d now pb)"
| "dispatch now (Update_product pid b) d =
     (case validate_update b of
        Inl es \<Rightarrow> (unprocessable es, d)
      | Inr u \<Rightarrow> update_product_endpoint d pid u)"
| "dispatch now (Delete_product pid) d = delete_product_endpoint d pid"

text \<open>A sequence of requests, each with the time at which it is served.\<close>

fun run :: "db \<Rightarrow> (timestamp \<times> request) list \<Rightarrow> response list \<times> db" where
  "run d [] = ([], d)"
| "run d ((t, r) # rs) =
     (let (resp, d') = dispatch t r d; (resps, d'') = run d' rs in (resp # resps, d''))"

section \<open>The response contract\<close>

text \<open>
  The statuses each endpoint can answer: the success status of its decorator, 404
  for the three endpoints that look a row up, 422 for the endpoints that take a body
  or query parameters, and 500 for an exception or a failed response validation.
\<close>

fun allowed_status :: "request \<Rightarrow> nat list" where
  "allowed_status (List_products _ _ _) = [200, 422, 500]"
| "allowed_status (Get_product _) = [200, 404, 500]"
| "allowed_status (Create_product _) = [201, 422, 500]"
| "allowed_status (Update_product _ _) = [200, 404, 422, 500]"
| "allowed_status (Delete_product _) = [204, 404, 500]"

text \<open>
  What a body of each status holds: products that satisfy ProductRead for 200 and
  201, the fixed message for 404, at least one field error for 422, nothing for 204.
\<close>

fun body_conforms :: "nat \<Rightarrow> body \<Rightarrow> bool" where
  "body_conforms s (Product_list ps) \<longleftrightarrow> s = 200 \<and> list_all (\<lambda>p. read_errors p = []) ps"
| "body_conforms s (Product_body p) \<longleftrightarrow> (s = 200 \<or> s = 201) \<and> read_errors p = []"
| "body_conforms s (Detail m) \<longleftrightarrow> s = 404 \<and> m = ''Producto no encontrado''"
| "body_conforms s (Validation_errors es) \<longleftrightarrow> s = 422 \<and> es \<noteq> []"
| "body_conforms s No_content \<longleftrightarrow> s = 204"
| "body_conforms s Internal_error \<longleftrightarrow> s = 500"

definition conforms :: "request \<Rightarrow> response \<Rightarrow> bool" where
  "conforms req r \<longleftrightarrow> status r \<in> set (allowed_status req) \<and> body_conforms (status r) (resp_body r)"

text \<open>The requests that name a row by its id and can change it: PUT and DELETE.\<close>

fun targets :: "request \<Rightarrow> int \<Rightarrow> bool" where
  "targets (Update_product pid _) k \<longleftrightarrow> pid = k"
| "targets (Delete_product pid) k \<longleftrightarrow> pid = k"
| "targets _ k \<longleftrightarrow> False"

text \<open>
  The row a PUT of id \<open>i\<close> writes, given the row \<open>get_product\<close> loads: None when it
  writes nothing (invalid body, id beyond 64 bits, no such row, failed flush).  A
  view of \<open>update_product_endpoint\<close>, used to reason about orders of requests.
\<close>

definition put_row :: "payload \<Rightarrow> int \<Rightarrow> product option \<Rightarrow> product option" where
  "put_row u i ro =
     (if update_errors u = [] \<and> sql_int i
      then case ro of None \<Rightarrow> None | Some p \<Rightarrow> (case flush_update p u of Inl _ \<Rightarrow> None | Inr p' \<Rightarrow> Some p')
      else None)"

section \<open>Lemmas\<close>

lemma required_Inr: "required loc k chk x = Inr v \<Longrightarrow> x = Given (Some v) \<and> chk v = []"
  by (erule required.elims) (auto simp: checked_def split: list.splits)

lemma defaulted_Inr: "defaulted d loc k chk x = Inr v \<Longrightarrow> (x = Unset \<and> v = d) \<or> (x = Given (Some v) \<and> chk v = [])"
  by (erule defaulted.elims) (auto simp: checked_def split: list.splits)

lemma nullable_Inr: "nullable chk x = Inr v \<Longrightarrow> pred_option (\<lambda>w. chk w = []) v"
  by (erule nullable.elims) (auto simp: map_sum_def split: sum.splits)

lemma validate_create_Inr:
  "validate_create b = Inr pb \<longleftrightarrow>
   required ''name'' String_type name_errors (body_name b) = Inr (name pb) \<and>
   nullable description_errors (body_description b) = Inr (description pb) \<and>
   required ''price'' Float_type price_errors (body_price b) = Inr (price pb) \<and>
   defaulted 0 ''stock'' Int_type stock_errors (body_stock b) = Inr (stock pb)"
  by (auto simp: validate_create_def Let_def split: sum.splits)

lemma validate_create_sound:
  "validate_create b = Inr pb \<Longrightarrow> read_errors pb = []"
  by (auto simp: validate_create_Inr read_errors_Nil_iff stock_errors_def
      dest!: required_Inr defaulted_Inr nullable_Inr)

lemma validate_update_Inr [simp]:
  "validate_update b = Inr u \<longleftrightarrow> update_errors b = [] \<and> u = b"
  by (auto simp: validate_update_def Let_def)

lemma validate_update_Inl [simp]:
  "validate_update b = Inl es \<longleftrightarrow> update_errors b = es \<and> es \<noteq> []"
  by (auto simp: validate_update_def Let_def)

lemma validate_update_ok [simp]:
  "update_errors b = [] \<Longrightarrow> validate_update b = Inr b"
  by (simp add: validate_update_def)

lemma validate_update_fail [simp]:
  "update_errors b \<noteq> [] \<Longrightarrow> validate_update b = Inl (update_errors b)"
  by (simp add: validate_update_def)

lemma respond_one_ok [simp]: "read_errors p = [] \<Longrightarrow> respond_one s p = \<lparr>status = s, resp_body = Product_body p\<rparr>"
  by (simp add: respond_one_def)

lemma row_ok_read: "row_ok p \<Longrightarrow> read_errors p = []"
  by (simp add: row_ok_def)

lemma db_wf_row: "db_wf d \<Longrightarrow> p \<in> set (products d) \<Longrightarrow> row_ok p"
  by (simp add: db_wf_def list_all_iff)

lemma get_product_Some:
  "get_product d pid = Inr (Some p) \<Longrightarrow> p \<in> set (products d) \<and> product_id p = pid"
  by (auto simp: get_product_def dest: lookup_row_Some split: if_splits)

lemma get_product_row:
  "db_wf d \<Longrightarrow> p \<in> set (products d) \<Longrightarrow> sql_int (product_id p) \<Longrightarrow>
   get_product d (product_id p) = Inr (Some p)"
  by (simp add: get_product_def db_wf_def lookup_row_in)

lemma get_product_absent:
  "sql_int pid \<Longrightarrow> lookup_row (products d) pid = None \<Longrightarrow> get_product d pid = Inr None"
  by (simp add: get_product_def)

lemma flush_update_no_null:
  "flush_update p u = Inr p' \<Longrightarrow>
   body_name u \<noteq> Given None \<and> body_price u \<noteq> Given None \<and> body_stock u \<noteq> Given None"
  by (auto simp: flush_update_Inr)

subsection \<open>What each endpoint does to the database\<close>

lemma list_products_state [simp]: "snd (list_products d s l n) = d"
  by (simp add: list_products_def split: sum.split)

lemma get_product_endpoint_state [simp]: "snd (get_product_endpoint d pid) = d"
  by (simp add: get_product_endpoint_def split: sum.split option.split)

lemma create_product_endpoint_cases:
  "create_product_endpoint d now b = (server_error, d) \<or>
   (\<exists>p d'. create_product d now b = Inr (p, d') \<and> create_product_endpoint d now b = (respond_one 201 p, d'))"
  by (auto simp: create_product_endpoint_def split: sum.split)

lemma update_product_endpoint_cases:
  "update_product_endpoint d pid u = (server_error, d) \<or> update_product_endpoint d pid u = (not_found, d) \<or>
   (\<exists>p p' d'. get_product d pid = Inr (Some p) \<and> update_product d p u = Inr (p', d') \<and>
      update_product_endpoint d pid u = (respond_one 200 p', d'))"
  by (auto simp: update_product_endpoint_def split: sum.split option.split)

lemma delete_product_endpoint_cases:
  "delete_product_endpoint d pid = (server_error, d) \<or> delete_product_endpoint d pid = (not_found, d) \<or>
   (\<exists>p. get_product d pid = Inr (Some p) \<and> delete_product_endpoint d pid = (no_content, delete_product d p))"
  by (auto simp: delete_product_endpoint_def split: sum.split option.split)

lemmas endpoint_cases = create_product_endpoint_cases update_product_endpoint_cases delete_product_endpoint_cases

text \<open>The state after each kind of write request: unchanged, or the result of the crud call.\<close>

lemma dispatch_create_state:
  "snd (dispatch now (Create_product b) d) = d \<or>
   (\<exists>pb p. create_product d now pb = Inr (p, snd (dispatch now (Create_product b) d)))"
  by (auto simp: create_product_endpoint_def split: sum.split)

lemma dispatch_update_state:
  "snd (dispatch now (Update_product pid b) d) = d \<or>
   (\<exists>q q'. get_product d pid = Inr (Some q) \<and> update_product d q b = Inr (q', snd (dispatch now (Update_product pid b) d)))"
  by (cases "update_errors b = []") (auto simp: update_product_endpoint_def split: sum.split option.split)

lemma dispatch_delete_state:
  "snd (dispatch now (Delete_product pid) d) = d \<or>
   (\<exists>q. get_product d pid = Inr (Some q) \<and> snd (dispatch now (Delete_product pid) d) = delete_product d q)"
  by (auto simp: delete_product_endpoint_def split: sum.split option.split)

lemma dispatch_read_state:
  "snd (dispatch now (List_products sk lm nm) d) = d" "snd (dispatch now (Get_product pid) d) = d"
  by (simp_all split: sum.split prod.split)

subsection \<open>Validation failures carry errors; responses keep the contract\<close>

lemma required_Inl: "required loc k chk x = Inl es \<Longrightarrow> es \<noteq> []"
  by (erule required.elims) (auto simp: checked_def split: list.splits)

lemma defaulted_Inl: "defaulted v loc k chk x = Inl es \<Longrightarrow> es \<noteq> []"
  by (erule defaulted.elims) (auto simp: checked_def split: list.splits)

lemma nullable_Inl: "nullable chk x = Inl es \<Longrightarrow> es \<noteq> []"
  by (erule nullable.elims) (auto simp: map_sum_def split: sum.splits)

lemma validate_create_Inl: "validate_create b = Inl es \<Longrightarrow> es \<noteq> []"
  by (auto simp: validate_create_def Let_def split: sum.splits
      dest: required_Inl defaulted_Inl nullable_Inl)

lemma validate_list_query_Inl: "validate_list_query sk lm nm = Inl es \<Longrightarrow> es \<noteq> []"
  by (auto simp: validate_list_query_def Let_def split: if_splits)

lemma respond_one_conforms:
  "s \<in> set (allowed_status req) \<Longrightarrow> s \<in> {200, 201} \<Longrightarrow> 500 \<in> set (allowed_status req) \<Longrightarrow>
   conforms req (respond_one s p)"
  by (auto simp: conforms_def respond_one_def server_error_def)

lemma respond_list_conforms:
  "conforms (List_products sk lm nm) (respond_list ps)"
  by (simp add: conforms_def respond_list_def server_error_def)

lemma error_responses_conform:
  "500 \<in> set (allowed_status req) \<Longrightarrow> conforms req server_error"
  "404 \<in> set (allowed_status req) \<Longrightarrow> conforms req not_found"
  "422 \<in> set (allowed_status req) \<Longrightarrow> es \<noteq> [] \<Longrightarrow> conforms req (unprocessable es)"
  by (simp_all add: conforms_def server_error_def not_found_def unprocessable_def)

section \<open>Facts about whole requests\<close>

text \<open>
  The step invariant: every request, whatever its outcome, leaves a well-formed table
  well formed.
\<close>

lemma dispatch_wf:
  assumes wf: "db_wf d"
  shows "db_wf (snd (dispatch now r d))"
proof (cases r)
  case (List_products sk lm nm)
  with wf show ?thesis by (simp split: sum.split prod.split)
next
  case (Get_product pid)
  with wf show ?thesis by simp
next
  case (Create_product b)
  show ?thesis
  proof (cases "validate_create b")
    case (Inr pb)
    then have "read_errors pb = []" by (rule validate_create_sound)
    with wf Inr Create_product show ?thesis
      using create_product_endpoint_cases [of d now pb] by (auto intro: create_product_wf)
  qed (use wf Create_product in simp)
next
  case (Update_product pid b)
  show ?thesis
  proof (cases "validate_update b")
    case (Inr u)
    then have "update_errors u = []" by simp
    with wf Inr Update_product show ?thesis
      using update_product_endpoint_cases [of d pid u]
      by (auto intro: update_product_wf dest: get_product_Some)
  qed (use wf Update_product in simp)
next
  case (Delete_product pid)
  with wf show ?thesis
    using delete_product_endpoint_cases [of d pid] by (auto intro: delete_product_wf)
qed

text \<open>
  The frame of a request: a stored row that the request does not name stays as it is.
\<close>

lemma dispatch_keeps_row:
  assumes k: "lookup_row (products d) k = Some p" and nt: "\<not> targets r k"
  shows "lookup_row (products (snd (dispatch now r d))) k = Some p"
proof (cases r)
  case (Create_product b)
  with k show ?thesis
    using dispatch_create_state [of now b d] by (auto simp: create_product_Inr lookup_row_snoc)
next
  case (Update_product pid b)
  have "lookup_row (products d') k = Some p"
    if "get_product d pid = Inr (Some q)" "update_product d q b = Inr (q', d')" for q q' d'
  proof -
    from that(1) have q: "q \<in> set (products d)" "product_id q = pid" by (auto dest: get_product_Some)
    from that(2) have "products d' = replace_row q' (products d)" "product_id q' = product_id q"
      by (auto simp: update_product_Inr dest: flush_update_id)
    with q k nt Update_product show ?thesis by (simp add: lookup_row_replace)
  qed
  with k Update_product show ?thesis using dispatch_update_state [of now pid b d] by auto
next
  case (Delete_product pid)
  with k nt show ?thesis
    using dispatch_delete_state [of now pid d]
    by (auto simp: delete_product_def lookup_row_delete dest: get_product_Some)
qed (use k in \<open>simp_all add: dispatch_read_state del: dispatch.simps\<close>)

text \<open>A request adds at most one id, one above the ids already stored.\<close>

lemma next_rowid_le:
  "0 \<le> b \<Longrightarrow> \<forall>p\<in>set ps. product_id p \<le> b \<Longrightarrow> next_rowid ps \<le> b + 1"
  by (cases "ps = []") (auto simp: next_rowid_def)

lemma replace_row_ids:
  "q \<in> set ps \<Longrightarrow> product_id q' = product_id q \<Longrightarrow>
   product_id ` set (replace_row q' ps) \<subseteq> product_id ` set ps"
  by (auto simp: replace_row_def)

lemma dispatch_ids_bound:
  assumes b: "0 \<le> b" "\<forall>p\<in>set (products d). product_id p \<le> b"
  shows "\<forall>p\<in>set (products (snd (dispatch now r d))). product_id p \<le> b + 1"
proof (cases r)
  case (Create_product c)
  have "next_rowid (products d) \<le> b + 1" using b by (rule next_rowid_le)
  with b Create_product show ?thesis
    using dispatch_create_state [of now c d] by (force simp: create_product_Inr new_row_def)
next
  case (Update_product pid c)
  have "\<forall>p\<in>set (products d'). product_id p \<le> b"
    if "get_product d pid = Inr (Some q)" "update_product d q c = Inr (q', d')" for q q' d'
  proof -
    from that(1) have q: "q \<in> set (products d)" by (auto dest: get_product_Some)
    from that(2) have "products d' = replace_row q' (products d)" "product_id q' = product_id q"
      by (auto simp: update_product_Inr dest: flush_update_id)
    with q b(2) show ?thesis using replace_row_ids [of q "products d" q'] by fastforce
  qed
  with b Update_product show ?thesis using dispatch_update_state [of now pid c d] by force
next
  case (Delete_product pid)
  with b show ?thesis using dispatch_delete_state [of now pid d] by (force simp: delete_product_def)
qed (use b in \<open>fastforce simp: dispatch_read_state simp del: dispatch.simps\<close>)+

lemma replace_row_same:
  "ids_sorted ps \<Longrightarrow> p \<in> set ps \<Longrightarrow> replace_row p ps = ps"
  unfolding replace_row_def
proof (rule map_idI)
  fix q assume s: "ids_sorted ps" and p: "p \<in> set ps" and q: "q \<in> set ps"
  show "(if product_id q = product_id p then p else q) = q"
    using lookup_row_in [OF s p] lookup_row_in [OF s q] by auto
qed

lemma flush_update_unchanged:
  "sql_int (stock p) \<Longrightarrow>
   flush_update p \<lparr>body_name = Unset, body_description = Unset, body_price = Unset, body_stock = Unset\<rparr> = Inr p"
  by (simp add: flush_update_merge flush_instance_def merge_patch_def load_def)

lemma validate_create_price_error:
  "body_price b = Given (Some x) \<Longrightarrow> x \<le> 0 \<Longrightarrow>
   \<exists>es. validate_create b = Inl es \<and> VErr ''price'' (Greater_than 0) \<in> set es"
  by (auto simp: validate_create_def Let_def price_errors_def check_gt_def checked_def split: sum.split)

lemma validate_create_name_error:
  "body_name b = Given (Some n) \<Longrightarrow> length n < 2 \<Longrightarrow>
   \<exists>es. validate_create b = Inl es \<and> VErr ''name'' (String_too_short 2) \<in> set es"
  by (auto simp: validate_create_def Let_def name_errors_def check_len_def checked_def split: sum.split)

lemma respond_one_status:
  "read_errors p = [] \<Longrightarrow> status (respond_one s p) = s"
  by simp

subsection \<open>A PUT depends on its own row only\<close>

lemma dispatch_update_table:
  "snd (dispatch t (Update_product i u) d) =
     d\<lparr>products := (case put_row u i (lookup_row (products d) i) of
                       None \<Rightarrow> products d | Some p' \<Rightarrow> replace_row p' (products d))\<rparr>"
  by (cases "update_errors u = []")
     (auto simp: put_row_def update_product_endpoint_def get_product_def update_product_def
        split: option.split sum.split)

lemma dispatch_update_local:
  "lookup_row (products d) i = lookup_row (products e) i \<Longrightarrow>
   fst (dispatch t (Update_product i u) d) = fst (dispatch t' (Update_product i u) e)"
  by (cases "update_errors u = []")
     (auto simp: update_product_endpoint_def get_product_def update_product_def split: option.split sum.split)

lemma dispatch_update_response:
  "fst (dispatch t (Update_product i u) d) =
     (if update_errors u \<noteq> [] then unprocessable (update_errors u)
      else if \<not> sql_int i then server_error
      else case lookup_row (products d) i of
             None \<Rightarrow> not_found
           | Some p \<Rightarrow> (case flush_update p u of Inl _ \<Rightarrow> server_error | Inr p' \<Rightarrow> respond_one 200 p'))"
  by (auto simp: update_product_endpoint_def get_product_def update_product_def split: option.split sum.split)

lemma put_row_Some:
  "put_row u i ro = Some p' \<Longrightarrow> \<exists>p. ro = Some p \<and> flush_update p u = Inr p' \<and> product_id p' = product_id p"
  by (auto simp: put_row_def dest: flush_update_id split: if_splits option.splits sum.splits)

lemma lookup_after_put:
  "lookup_row (case put_row u i (lookup_row ps i) of None \<Rightarrow> ps | Some p' \<Rightarrow> replace_row p' ps) k =
   (case put_row u i (lookup_row ps i) of None \<Rightarrow> lookup_row ps k
    | Some p' \<Rightarrow> if k = i then Some p' else lookup_row ps k)"
proof (cases "put_row u i (lookup_row ps i)")
  case (Some p')
  then obtain p where p: "lookup_row ps i = Some p" "product_id p' = product_id p" by (auto dest: put_row_Some)
  then have "p \<in> set ps" "product_id p = i" by (simp_all add: lookup_row_Some)
  with Some p show ?thesis by (simp add: lookup_row_replace)
qed simp

lemma replace_row_commute:
  "product_id a \<noteq> product_id b \<Longrightarrow> replace_row a (replace_row b ps) = replace_row b (replace_row a ps)"
  by (induction ps) (auto simp: replace_row_def)

lemma replace_row_twice: "replace_row p (replace_row p ps) = replace_row p ps"
  by (induction ps) (auto simp: replace_row_def)

lemma flush_update_idem:
  "flush_update p u = Inr p' \<Longrightarrow> flush_update p' u = Inr p'"
  by (cases "body_name u"; cases "body_description u"; cases "body_price u"; cases "body_stock u")
     (auto simp: flush_update_Inr)

end
