(* ===== verification/Paging.thy ===== *)
theory Paging
  imports Routes
begin

text \<open>
  A client of \<open>GET /products\<close> (src/app/main.py \<open>list_products\<close>), the use the
  service's docstring names first, \<open>Listado paginado por 3 elementos\<close>: it asks for
  the page at \<open>skip\<close> with a fixed \<open>limit\<close>, and for the next page at
  \<open>skip + limit\<close>, until a page comes back empty.  The walk ends only because the
  endpoint honours \<open>skip\<close>: it is written as a \<open>partial_function (option)\<close>, None
  being a walk that never ends, and the theorem of this theory proves that it
  returns.  A page request that fails ends the walk with its status (\<open>Inl\<close>).
\<close>

partial_function (option) fetch_pages ::
  "timestamp \<Rightarrow> db \<Rightarrow> int \<Rightarrow> int \<Rightarrow> (nat + product list) option" where
  "fetch_pages now d page skip =
     (let r = fst (dispatch now (List_products (Some skip) (Some page) None) d)
      in case resp_body r of
           Product_list [] \<Rightarrow> Some (Inr [])
         | Product_list ps \<Rightarrow>
             Option.bind (fetch_pages now d page (skip + page)) (\<lambda>rest. Some (map_sum id ((@) ps) rest))
         | _ \<Rightarrow> Some (Inl (status r)))"

section \<open>Lemmas\<close>

lemma list_page_response:
  assumes "db_wf d" "0 \<le> skip" "sql_int skip" "1 \<le> page" "page \<le> 100"
  shows "fst (dispatch now (List_products (Some skip) (Some page) None) d) =
           \<lparr>status = 200, resp_body = Product_list (take (nat page) (drop (nat skip) (products d)))\<rparr>"
proof -
  from assms(1) have s: "sort_key product_id (products d) = products d"
    by (simp add: db_wf_def sort_key_ids_sorted)
  from assms(1) have "list_all (\<lambda>p. read_errors p = []) (take (nat page) (drop (nat skip) (products d)))"
    by (auto simp: db_wf_def list_all_iff row_ok_def dest!: in_set_takeD in_set_dropD)
  moreover from assms(4,5) have "sql_int page" by (simp add: sql_int_def)
  ultimately show ?thesis using assms s
    by (simp add: validate_list_query_def list_products_def get_products_def name_filter_def
        sql_limit_def sql_offset_def respond_list_def)
qed

lemma take_drop_append:
  "take n (drop m xs) @ drop (m + n) xs = drop m xs"
  by (metis append_take_drop_id drop_drop add.commute)

section \<open>The walk returns every row once\<close>

text \<open>
  C29 (termination).  On a well-formed table, a client that pages with a limit in
  \<open>1..100\<close> from any offset up to the end of the table gets an answer: the walk
  ends, after one request per page plus the final empty one, and the pages put
  together are the rows from the offset on, each once, in id order.  The bound on
  the table's length keeps every offset the client sends within 64 bits.
\<close>

theorem fetch_pages_returns:
  assumes "db_wf d" "1 \<le> page" "page \<le> 100" "0 \<le> skip" "skip \<le> int (length (products d)) + 100"
    "int (length (products d)) + 100 < 2 ^ 63"
  shows "fetch_pages now d page skip = Some (Inr (drop (nat skip) (products d)))"
  using assms(4,5)
proof (induction "nat (int (length (products d)) - skip)" arbitrary: skip rule: less_induct)
  case less
  have sq: "sql_int skip" using less.prems assms(6) by (simp add: sql_int_def)
  note resp = list_page_response [OF assms(1) less.prems(1) sq assms(2,3), of now]
  show ?case
  proof (cases "drop (nat skip) (products d) = []")
    case True
    with resp show ?thesis by (subst fetch_pages.simps) simp
  next
    case False
    let ?ps = "take (nat page) (drop (nat skip) (products d))"
    from False assms(2) have ne: "?ps \<noteq> []" by simp
    from False have lt: "skip < int (length (products d))" by simp
    with less.prems assms(2,3) have "fetch_pages now d page (skip + page) =
        Some (Inr (drop (nat (skip + page)) (products d)))"
      by (intro less.hyps) simp_all
    moreover have "nat (skip + page) = nat skip + nat page" using less.prems(1) assms(2) by simp
    moreover have "fetch_pages now d page skip =
        Option.bind (fetch_pages now d page (skip + page)) (\<lambda>rest. Some (map_sum id ((@) ?ps) rest))"
    proof -
      obtain a l where "?ps = a # l" using ne by (cases ?ps) auto
      with resp show ?thesis by (subst fetch_pages.simps) simp
    qed
    ultimately show ?thesis by (simp add: take_drop_append)
  qed
qed

theorem fetch_pages_returns_witness:
  "let r1 = \<lparr>name = ''Paracetamol 500mg'', description = None, price = 3 / 2, stock = 10,
             product_id = 1, created_at = 0\<rparr>;
       r2 = \<lparr>name = ''Ibuprofeno 400mg'', description = None, price = 2, stock = 5,
             product_id = 4, created_at = 0\<rparr>
   in db_wf \<lparr>products = [r1, r2]\<rparr> \<and>
      fetch_pages 0 \<lparr>products = [r1, r2]\<rparr> 1 0 = Some (Inr [r1, r2])"
proof -
  define r1 where "r1 = \<lparr>name = ''Paracetamol 500mg'', description = None :: string option,
    price = 3 / 2 :: real, stock = 10 :: int, product_id = 1 :: int, created_at = 0 :: nat\<rparr>"
  define r2 where "r2 = \<lparr>name = ''Ibuprofeno 400mg'', description = None :: string option,
    price = 2 :: real, stock = 5 :: int, product_id = 4 :: int, created_at = 0 :: nat\<rparr>"
  have h1: "db_wf \<lparr>products = [r1, r2]\<rparr>"
    by (simp add: db_wf_def row_ok_def read_errors_def field_errors_defs ids_sorted_def sql_int_def
        r1_def r2_def check_len_def check_gt_def check_ge_def)
  have h: "1 \<le> (1 :: int)" "(1 :: int) \<le> 100" "0 \<le> (0 :: int)"
    "0 \<le> int (length (products \<lparr>products = [r1, r2]\<rparr>)) + 100"
    "int (length (products \<lparr>products = [r1, r2]\<rparr>)) + 100 < 2 ^ 63"
    by simp_all
  from fetch_pages_returns [OF h1 h, of 0] h1 show ?thesis
    by (simp add: Let_def r1_def [symmetric] r2_def [symmetric])
qed

end
