(* ===== verification/Http_Properties.thy ===== *)
theory Http_Properties
  imports Routes
begin

text \<open>
  The properties of the HTTP layer of src/app/main.py, stated over \<open>dispatch\<close> and
  the endpoint functions of \<open>Routes\<close> and proved from the lemmas there: the
  answers of each endpoint to absent, invalid, valid and out-of-range input, the
  response contract, the listing's paging and query validation, round trips of
  create and update, and the order in which FastAPI and the code check things.
\<close>

text \<open>
  C4 (error, no side effects).  A GET, PUT or DELETE of an id that no row has answers
  404 \<open>Producto no encontrado\<close> and leaves the database as it was (for PUT, once the
  body has passed validation).
\<close>

theorem absent_id_404:
  assumes "sql_int pid" "lookup_row (products d) pid = None" "update_errors b = []"
  shows "dispatch now (Get_product pid) d = (not_found, d) \<and>
         dispatch now (Update_product pid b) d = (not_found, d) \<and>
         dispatch now (Delete_product pid) d = (not_found, d)"
  using get_product_absent [OF assms(1,2)] assms(3)
  by (simp add: get_product_endpoint_def update_product_endpoint_def delete_product_endpoint_def)

theorem absent_id_404_witness:
  "sql_int 42 \<and> lookup_row (products \<lparr>products = []\<rparr>) 42 = None \<and>
   update_errors \<lparr>body_name = Unset, body_description = Unset, body_price = Given (Some 6),
                  body_stock = Unset\<rparr> = [] \<and>
   dispatch 0 (Get_product 42) \<lparr>products = []\<rparr> = (not_found, \<lparr>products = []\<rparr>)"
proof -
  have h: "sql_int 42" "lookup_row (products \<lparr>products = []\<rparr>) 42 = None"
    "update_errors \<lparr>body_name = Unset, body_description = Unset, body_price = Given (Some (6::real)),
                  body_stock = Unset\<rparr> = []"
    by (simp_all add: sql_int_def lookup_row_def update_errors_def price_errors_def)
  from absent_id_404 [OF h, of 0] h show ?thesis by simp
qed

text \<open>
  C3 (functional: delete law).  After a DELETE of an id, a GET of that id answers 404,
  whether the DELETE found a row or not.
\<close>

theorem delete_then_get_404:
  assumes "sql_int pid" "d' = snd (dispatch t (Delete_product pid) d)"
  shows "dispatch t' (Get_product pid) d' = (not_found, d')"
proof -
  have "lookup_row (products d') pid = None"
  proof (cases "get_product d pid")
    case (Inr r)
    show ?thesis
    proof (cases r)
      case None
      with Inr assms show ?thesis by (simp add: delete_product_endpoint_def get_product_def)
    next
      case (Some p)
      with Inr have "product_id p = pid" by (auto dest: get_product_Some)
      with Inr Some assms(2) show ?thesis
        by (simp add: delete_product_endpoint_def delete_product_def lookup_row_delete)
    qed
  qed (use assms in \<open>simp add: get_product_def split: if_splits\<close>)
  with assms(1) show ?thesis
    by (simp add: get_product_endpoint_def get_product_absent)
qed

theorem delete_then_get_404_witness:
  "let r = \<lparr>name = ''Ketorolaco 10mg'', description = None, price = 21 / 4, stock = 33,
            product_id = 1, created_at = 0\<rparr>;
       d' = snd (dispatch 1 (Delete_product 1) \<lparr>products = [r]\<rparr>)
   in d' = \<lparr>products = []\<rparr> \<and> dispatch 2 (Get_product 1) d' = (not_found, d')"
proof -
  define r where "r = \<lparr>name = ''Ketorolaco 10mg'', description = None :: string option,
    price = 21 / 4 :: real, stock = 33 :: int, product_id = 1 :: int, created_at = 0 :: nat\<rparr>"
  have del: "snd (dispatch 1 (Delete_product 1) \<lparr>products = [r]\<rparr>) = \<lparr>products = []\<rparr>"
    by (simp add: r_def delete_product_endpoint_def get_product_def sql_int_def lookup_row_def
        delete_product_def)
  have "sql_int 1" by (simp add: sql_int_def)
  from delete_then_get_404 [OF this refl, where t = 1 and d = "\<lparr>products = [r]\<rparr>" and t' = 2] del
  show ?thesis
    by (simp add: Let_def r_def)
qed

text \<open>
  C5 (error).  A POST whose price is not positive, or whose name is shorter than two
  characters, is answered 422 with the field's error among the details, and no row is
  created.
\<close>

theorem create_invalid_rejected:
  assumes "(body_price b = Given (Some x) \<and> x \<le> 0) \<or> (body_name b = Given (Some n) \<and> length n < 2)"
  shows "\<exists>es. dispatch now (Create_product b) d = (unprocessable es, d) \<and>
              (VErr ''price'' (Greater_than 0) \<in> set es \<or> VErr ''name'' (String_too_short 2) \<in> set es)"
proof -
  from assms obtain es where v: "validate_create b = Inl es"
    and e: "VErr ''price'' (Greater_than 0) \<in> set es \<or> VErr ''name'' (String_too_short 2) \<in> set es"
    using validate_create_price_error [of b x] validate_create_name_error [of b n] by blast
  from v have "dispatch now (Create_product b) d = (unprocessable es, d)" by simp
  with e show ?thesis by blast
qed

theorem create_invalid_rejected_witness:
  "let b = \<lparr>body_name = Given (Some ''Ketorolaco 10mg''), body_description = Unset,
            body_price = Given (Some 0), body_stock = Unset\<rparr>
   in \<exists>es. dispatch 0 (Create_product b) \<lparr>products = []\<rparr> = (unprocessable es, \<lparr>products = []\<rparr>) \<and>
          VErr ''price'' (Greater_than 0) \<in> set es"
proof -
  define b where "b = \<lparr>body_name = Given (Some ''Ketorolaco 10mg''), body_description = Unset,
    body_price = Given (Some (0::real)), body_stock = Unset :: int option patch\<rparr>"
  have "(body_price b = Given (Some 0) \<and> (0::real) \<le> 0) \<or> (body_name b = Given (Some ''x'') \<and> length ''x'' < 2)"
    by (simp add: b_def)
  from create_invalid_rejected [OF this, of 0 "\<lparr>products = []\<rparr>"] obtain es where
    "dispatch 0 (Create_product b) \<lparr>products = []\<rparr> = (unprocessable es, \<lparr>products = []\<rparr>)" by blast
  moreover from validate_create_price_error [of b 0] obtain es' where
    "validate_create b = Inl es'" "VErr ''price'' (Greater_than 0) \<in> set es'" by (auto simp: b_def)
  ultimately show ?thesis by (auto simp: Let_def b_def [symmetric] unprocessable_def)
qed

text \<open>
  C6 (functional).  A valid POST on a well-formed table whose next rowid fits 64 bits
  (below the largest rowid, where SQLite would pick a random one, which the model
  leaves out) is answered 201 with the new row: its fields are the validated body,
  its id is the next rowid, positive, within 64 bits and used by no other row, its
  \<open>created_at\<close> is the time of the request, and it is appended to the table.
\<close>

theorem create_valid_201:
  assumes "db_wf d" "validate_create b = Inr pb" "sql_int (stock pb)" "sql_int (next_rowid (products d))"
  shows "let p = new_row pb (next_rowid (products d)) now
         in dispatch now (Create_product b) d =
              (\<lparr>status = 201, resp_body = Product_body p\<rparr>, d\<lparr>products := products d @ [p]\<rparr>) \<and>
            0 < product_id p \<and> sql_int (product_id p) \<and> lookup_row (products d) (product_id p) = None \<and>
            created_at p = now"
proof -
  let ?p = "new_row pb (next_rowid (products d)) now"
  have "read_errors ?p = read_errors pb" by (simp add: read_errors_def new_row_def)
  with assms(2) have r: "read_errors ?p = []" by (simp add: validate_create_sound)
  from assms(1) have pos: "0 < next_rowid (products d)"
    by (intro next_rowid_pos) (auto simp: db_wf_def row_ok_def list_all_iff)
  from assms(3) have "create_product d now pb = Inr (?p, d\<lparr>products := products d @ [?p]\<rparr>)"
    by (simp add: create_product_def Let_def)
  with assms(2) r have "dispatch now (Create_product b) d =
      (\<lparr>status = 201, resp_body = Product_body ?p\<rparr>, d\<lparr>products := products d @ [?p]\<rparr>)"
    by (simp add: create_product_endpoint_def)
  moreover have "product_id ?p = next_rowid (products d)" "created_at ?p = now"
    by (simp_all add: new_row_def)
  ultimately show ?thesis using pos assms(4) next_rowid_fresh [of "products d"] by (simp add: Let_def)
qed

theorem create_valid_201_witness:
  "let b = \<lparr>body_name = Given (Some ''Ketorolaco 10mg''), body_description = Given (Some ''Analgesico''),
            body_price = Given (Some (21 / 4)), body_stock = Given (Some 33)\<rparr>;
       pb = \<lparr>name = ''Ketorolaco 10mg'', description = Some ''Analgesico'', price = 21 / 4, stock = 33\<rparr>
   in db_wf \<lparr>products = []\<rparr> \<and> validate_create b = Inr pb \<and> sql_int (stock pb) \<and>
      sql_int (next_rowid (products \<lparr>products = []\<rparr>)) \<and>
      fst (dispatch 7 (Create_product b) \<lparr>products = []\<rparr>) =
        \<lparr>status = 201, resp_body = Product_body (new_row pb 1 7)\<rparr>"
proof -
  define b where "b = \<lparr>body_name = Given (Some ''Ketorolaco 10mg''),
    body_description = Given (Some ''Analgesico''), body_price = Given (Some (21 / 4 :: real)),
    body_stock = Given (Some (33 :: int))\<rparr>"
  define pb where "pb = \<lparr>name = ''Ketorolaco 10mg'', description = Some ''Analgesico'',
    price = 21 / 4 :: real, stock = 33 :: int\<rparr>"
  have h1: "db_wf \<lparr>products = []\<rparr>" by (simp add: db_wf_def ids_sorted_def)
  have h2: "validate_create b = Inr pb"
    by (simp add: b_def pb_def validate_create_def field_errors_defs checked_def Let_def
        check_len_def check_max_len_def check_gt_def check_ge_def)
  have h3: "sql_int (stock pb)" by (simp add: pb_def sql_int_def)
  have h4: "sql_int (next_rowid (products \<lparr>products = []\<rparr>))" by (simp add: next_rowid_def sql_int_def)
  from create_valid_201 [OF h1 h2 h3 h4, of 7] h1 h2 h3 h4 show ?thesis
    by (simp add: Let_def b_def [symmetric] pb_def [symmetric] next_rowid_def)
qed

text \<open>
  C14 (divergence from the spec: order of checks).  A PUT whose body fails validation
  is answered 422 before the endpoint looks the id up, so a PUT of an id that does not
  exist with an invalid body is a 422, not the 404 the spec lists first; nothing is
  written.
\<close>

theorem put_validation_before_404:
  assumes "update_errors b \<noteq> []"
  shows "dispatch now (Update_product pid b) d = (unprocessable (update_errors b), d)"
  using assms by simp

theorem put_validation_before_404_witness:
  "let b = \<lparr>body_name = Unset, body_description = Unset, body_price = Given (Some (-1)),
            body_stock = Unset\<rparr>
   in lookup_row [] 99 = None \<and> update_errors b \<noteq> [] \<and>
      dispatch 0 (Update_product 99 b) \<lparr>products = []\<rparr> =
        (unprocessable (update_errors b), \<lparr>products = []\<rparr>)"
proof -
  define b where "b = \<lparr>body_name = Unset, body_description = Unset,
    body_price = Given (Some (-1 :: real)), body_stock = Unset :: int option patch\<rparr>"
  have h: "update_errors b \<noteq> []"
    by (simp add: b_def update_errors_def price_errors_def check_gt_def)
  from put_validation_before_404 [OF h, of 0 99 "\<lparr>products = []\<rparr>"] h show ?thesis
    by (simp add: Let_def b_def [symmetric] lookup_row_def)
qed

text \<open>
  C13 (error: a bug of \<open>update_product\<close>).  ProductUpdate declares every field
  Optional, so a PUT with an explicit null for \<open>name\<close>, \<open>price\<close> or \<open>stock\<close> passes
  validation; \<open>update_product\<close> then writes NULL into a NOT NULL column and the
  commit fails: the answer is a 500 instead of a 422, and nothing is written.
\<close>

theorem put_null_500:
  assumes "db_wf d" "p \<in> set (products d)" "sql_int (product_id p)" "update_errors b = []"
    and "body_name b = Given None \<or> body_price b = Given None \<or> body_stock b = Given None"
  shows "dispatch now (Update_product (product_id p) b) d = (server_error, d)"
proof -
  from assms(5) have "\<forall>p'. flush_update p b \<noteq> Inr p'" by (auto dest: flush_update_no_null)
  then have "\<forall>x. update_product d p b \<noteq> Inr x" by (auto simp: update_product_Inr)
  then obtain e where "update_product d p b = Inl e" by (cases "update_product d p b") auto
  with assms(4) get_product_row [OF assms(1-3)] show ?thesis
    by (simp add: update_product_endpoint_def)
qed

theorem put_null_500_witness:
  "let r = \<lparr>name = ''Ketorolaco 10mg'', description = None, price = 21 / 4, stock = 33,
            product_id = 1, created_at = 0\<rparr>;
       b = \<lparr>body_name = Given None, body_description = Unset, body_price = Unset, body_stock = Unset\<rparr>
   in db_wf \<lparr>products = [r]\<rparr> \<and> update_errors b = [] \<and>
      dispatch 0 (Update_product 1 b) \<lparr>products = [r]\<rparr> = (server_error, \<lparr>products = [r]\<rparr>)"
proof -
  define r where "r = \<lparr>name = ''Ketorolaco 10mg'', description = None :: string option,
    price = 21 / 4 :: real, stock = 33 :: int, product_id = 1 :: int, created_at = 0 :: nat\<rparr>"
  define b where "b = \<lparr>body_name = Given (None :: string option), body_description = Unset :: string option patch,
    body_price = Unset :: real option patch, body_stock = Unset :: int option patch\<rparr>"
  have h1: "db_wf \<lparr>products = [r]\<rparr>"
    by (simp add: r_def db_wf_def row_ok_def read_errors_def field_errors_defs ids_sorted_def sql_int_def
        check_len_def check_gt_def check_ge_def)
  have h2: "r \<in> set (products \<lparr>products = [r]\<rparr>)" "sql_int (product_id r)" "update_errors b = []"
    by (simp_all add: r_def b_def sql_int_def update_errors_def)
  have h3: "body_name b = Given None \<or> body_price b = Given None \<or> body_stock b = Given None"
    by (simp add: b_def)
  have i: "product_id r = 1" by (simp add: r_def)
  from put_null_500 [OF h1 h2 h3, of 0] h1 h2 show ?thesis
    by (simp add: Let_def r_def [symmetric] b_def [symmetric] i)
qed

text \<open>
  C16 (bounds).  ProductCreate bounds \<open>stock\<close> below by 0 only, and Python ints are
  unbounded; a valid POST whose stock does not fit a signed 64-bit integer fails in
  the driver when the INSERT binds it: a 500, and no row.
\<close>

theorem stock_overflow_500:
  assumes "validate_create b = Inr pb" "\<not> sql_int (stock pb)"
  shows "dispatch now (Create_product b) d = (server_error, d)"
  using assms by (simp add: create_product_endpoint_def create_product_def)

theorem stock_overflow_500_witness:
  "let b = \<lparr>body_name = Given (Some ''Ketorolaco 10mg''), body_description = Unset,
            body_price = Given (Some (21 / 4)), body_stock = Given (Some (2 ^ 63))\<rparr>;
       pb = \<lparr>name = ''Ketorolaco 10mg'', description = None, price = 21 / 4, stock = 2 ^ 63\<rparr>
   in validate_create b = Inr pb \<and> \<not> sql_int (stock pb) \<and>
      dispatch 0 (Create_product b) \<lparr>products = []\<rparr> = (server_error, \<lparr>products = []\<rparr>)"
proof -
  define b where "b = \<lparr>body_name = Given (Some ''Ketorolaco 10mg''), body_description = Unset,
    body_price = Given (Some (21 / 4 :: real)), body_stock = Given (Some ((2::int) ^ 63))\<rparr>"
  define pb where "pb = \<lparr>name = ''Ketorolaco 10mg'', description = None :: string option,
    price = 21 / 4 :: real, stock = (2::int) ^ 63\<rparr>"
  have h1: "validate_create b = Inr pb"
    by (simp add: b_def pb_def validate_create_def field_errors_defs checked_def Let_def
        check_len_def check_gt_def check_ge_def)
  have h2: "\<not> sql_int (stock pb)" by (simp add: pb_def sql_int_def)
  show ?thesis
    unfolding Let_def b_def [symmetric] pb_def [symmetric]
    using stock_overflow_500 [OF h1 h2, of 0 "\<lparr>products = []\<rparr>"] h1 h2 by simp
qed

text \<open>
  C10 (error: failed requests have no effect).  On a well-formed table, every request
  that is not answered 200, 201 or 204 leaves the database unchanged: validation
  errors, 404s and database errors are all side-effect free.
\<close>

theorem failed_request_no_effect:
  assumes wf: "db_wf d" and st: "status (fst (dispatch now r d)) \<notin> {200, 201, 204}"
  shows "snd (dispatch now r d) = d"
proof (cases r)
  case (Create_product b)
  show ?thesis
  proof (cases "validate_create b")
    case (Inr pb)
    then have "read_errors (new_row pb i now) = []" for i
      using validate_create_sound [OF Inr] by (simp add: read_errors_def new_row_def)
    with st Inr Create_product show ?thesis
      using create_product_endpoint_cases [of d now pb]
      by (auto simp: create_product_Inr)
  qed (use Create_product in simp)
next
  case (Update_product pid b)
  show ?thesis
  proof (cases "update_errors b = []")
    case True
    have "read_errors p' = []" if "get_product d pid = Inr (Some p)" "update_product d p b = Inr (p', d')" for p p' d'
    proof -
      from that(1) wf have "row_ok p" by (auto dest: get_product_Some intro: db_wf_row)
      with True that(2) have "row_ok p'" by (auto simp: update_product_Inr intro: flush_update_row_ok)
      then show ?thesis by (rule row_ok_read)
    qed
    with st True Update_product show ?thesis
      using update_product_endpoint_cases [of d pid b] by (auto simp: not_found_def server_error_def)
  qed (use Update_product in simp)
next
  case (Delete_product pid)
  with st show ?thesis
    using delete_product_endpoint_cases [of d pid] by (auto simp: no_content_def)
qed (simp_all split: sum.split prod.split)

theorem failed_request_no_effect_witness:
  "db_wf \<lparr>products = []\<rparr> \<and> status (fst (dispatch 0 (Delete_product 3) \<lparr>products = []\<rparr>)) = 404 \<and>
   snd (dispatch 0 (Delete_product 3) \<lparr>products = []\<rparr>) = \<lparr>products = []\<rparr>"
proof -
  have h1: "db_wf \<lparr>products = []\<rparr>" by (simp add: db_wf_def ids_sorted_def)
  have h2: "status (fst (dispatch 0 (Delete_product 3) \<lparr>products = []\<rparr>)) = 404"
    by (simp add: delete_product_endpoint_def get_product_def sql_int_def lookup_row_def not_found_def)
  from failed_request_no_effect [OF h1, of 0 "Delete_product 3"] h1 h2 show ?thesis by simp
qed

text \<open>
  C12 (functional: default listing).  \<open>GET /products\<close> without parameters answers 200
  with the first three rows of a well-formed table in id order, as the test
  \<open>test_list_products_default_pagination\<close> expects of a table seeded with at least
  three products.
\<close>

theorem list_default_page:
  assumes "db_wf d"
  shows "dispatch now (List_products None None None) d =
           (\<lparr>status = 200, resp_body = Product_list (take 3 (products d))\<rparr>, d) \<and>
         length (take 3 (products d)) = min 3 (length (products d))"
proof -
  from assms have s: "sort_key product_id (products d) = products d"
    by (simp add: db_wf_def sort_key_ids_sorted)
  from assms have "list_all (\<lambda>p. read_errors p = []) (take 3 (products d))"
    by (auto simp: db_wf_def list_all_iff row_ok_def dest: in_set_takeD)
  with s show ?thesis
    by (simp add: validate_list_query_def list_products_def get_products_def name_filter_def
        sql_int_def sql_limit_def sql_offset_def respond_list_def)
qed

theorem list_default_page_witness:
  "let r = \<lparr>name = ''Paracetamol 500mg'', description = None, price = 3 / 2, stock = 10,
            product_id = 1, created_at = 0\<rparr>
   in db_wf \<lparr>products = [r]\<rparr> \<and>
      dispatch 0 (List_products None None None) \<lparr>products = [r]\<rparr> =
        (\<lparr>status = 200, resp_body = Product_list [r]\<rparr>, \<lparr>products = [r]\<rparr>)"
proof -
  define r where "r = \<lparr>name = ''Paracetamol 500mg'', description = None :: string option,
    price = 3 / 2 :: real, stock = 10 :: int, product_id = 1 :: int, created_at = 0 :: nat\<rparr>"
  have h: "db_wf \<lparr>products = [r]\<rparr>"
    by (simp add: r_def db_wf_def row_ok_def read_errors_def field_errors_defs ids_sorted_def sql_int_def
        check_len_def check_gt_def check_ge_def)
  from list_default_page [OF h, of 0] h show ?thesis by (simp add: Let_def r_def [symmetric])
qed

text \<open>
  C21 (type: the response contract).  Every request, on every database state, is
  answered with one of the statuses its endpoint declares, and the body has the shape
  of that status: rows that satisfy ProductRead for 200 and 201, the fixed message for
  404, a non-empty list of field errors for 422, an empty body for 204.
\<close>

theorem dispatch_conforms: "conforms req (fst (dispatch now req d))"
proof (cases req)
  case (List_products sk lm nm)
  then show ?thesis
    by (auto simp: list_products_def respond_list_conforms error_responses_conform
        dest: validate_list_query_Inl split: sum.split)
next
  case (Get_product pid)
  then show ?thesis
    by (auto simp: get_product_endpoint_def respond_one_conforms error_responses_conform
        split: sum.split option.split)
next
  case (Create_product b)
  then show ?thesis
    by (auto simp: create_product_endpoint_def respond_one_conforms error_responses_conform
        dest: validate_create_Inl split: sum.split prod.split)
next
  case (Update_product pid b)
  then show ?thesis
    by (auto simp: update_product_endpoint_def respond_one_conforms error_responses_conform
        split: sum.split option.split prod.split)
next
  case (Delete_product pid)
  then show ?thesis
    by (auto simp: delete_product_endpoint_def conforms_def no_content_def server_error_def not_found_def
        split: sum.split option.split)
qed

text \<open>
  C22 (error: query validation of the listing).  \<open>GET /products\<close> is answered 422
  exactly when a given \<open>skip\<close> is negative, a given \<open>limit\<close> lies outside
  \<open>1..100\<close>, or a given \<open>name\<close> is empty; whatever the answer, the listing
  changes nothing.
\<close>

theorem list_query_422:
  "(status (fst (dispatch now (List_products sk lm nm) d)) = 422 \<longleftrightarrow>
      (case sk of None \<Rightarrow> False | Some s \<Rightarrow> s < 0) \<or>
      (case lm of None \<Rightarrow> False | Some l \<Rightarrow> l < 1 \<or> 100 < l) \<or> nm = Some []) \<and>
   snd (dispatch now (List_products sk lm nm) d) = d"
proof -
  have ok: "status (fst (list_products d s l n)) \<noteq> 422" for s l n
    by (simp add: list_products_def respond_list_def server_error_def split: sum.split)
  show ?thesis
    using ok by (auto simp: validate_list_query_def Let_def unprocessable_def Suc_le_eq
        split: option.splits if_splits sum.split)
qed

text \<open>
  C23 (error: a stored row that ProductRead rejects).  The table does not enforce the
  schema's constraints, so a row loaded by the seed script can violate them (a price
  of 0, a one-letter name).  Such a row among the first three makes the default
  listing answer 500, the whole page lost; a GET of its id answers 500 as well; only
  its DELETE still succeeds.
\<close>

theorem bad_row_500:
  assumes "ids_sorted (products d)" "p \<in> set (take 3 (products d))" "read_errors p \<noteq> []"
    "sql_int (product_id p)"
  shows "dispatch now (List_products None None None) d = (server_error, d) \<and>
         dispatch now (Get_product (product_id p)) d = (server_error, d) \<and>
         dispatch now (Delete_product (product_id p)) d = (no_content, delete_product d p)"
proof -
  from assms(2) have p: "p \<in> set (products d)" by (rule in_set_takeD)
  with assms(1) have l: "lookup_row (products d) (product_id p) = Some p" by (rule lookup_row_in)
  from assms(2,3) have "\<not> list_all (\<lambda>p. read_errors p = []) (take 3 (products d))"
    by (auto simp: list_all_iff)
  with assms(1) have "dispatch now (List_products None None None) d = (server_error, d)"
    by (simp add: validate_list_query_def list_products_def get_products_def name_filter_def
        sql_int_def sql_limit_def sql_offset_def respond_list_def sort_key_ids_sorted)
  moreover from l assms(3,4) have "dispatch now (Get_product (product_id p)) d = (server_error, d)"
    by (simp add: get_product_endpoint_def get_product_def respond_one_def)
  moreover from l assms(4) have "dispatch now (Delete_product (product_id p)) d = (no_content, delete_product d p)"
    by (simp add: delete_product_endpoint_def get_product_def)
  ultimately show ?thesis by simp
qed

theorem bad_row_500_witness:
  "let r = \<lparr>name = ''Paracetamol 500mg'', description = None, price = 0, stock = 10,
            product_id = 1, created_at = 0\<rparr>
   in ids_sorted [r] \<and> r \<in> set (take 3 [r]) \<and> read_errors r \<noteq> [] \<and> sql_int (product_id r) \<and>
      dispatch 0 (List_products None None None) \<lparr>products = [r]\<rparr> = (server_error, \<lparr>products = [r]\<rparr>) \<and>
      dispatch 0 (Delete_product 1) \<lparr>products = [r]\<rparr> = (no_content, \<lparr>products = []\<rparr>)"
proof -
  define r where "r = \<lparr>name = ''Paracetamol 500mg'', description = None :: string option,
    price = 0 :: real, stock = 10 :: int, product_id = 1 :: int, created_at = 0 :: nat\<rparr>"
  have h: "ids_sorted (products \<lparr>products = [r]\<rparr>)" "r \<in> set (take 3 (products \<lparr>products = [r]\<rparr>))"
    "read_errors r \<noteq> []" "sql_int (product_id r)"
    by (simp_all add: r_def ids_sorted_def read_errors_def field_errors_defs check_gt_def sql_int_def)
  from bad_row_500 [OF h, of 0] h show ?thesis
    by (simp add: Let_def r_def [symmetric]) (simp add: r_def delete_product_def)
qed

text \<open>
  C32 (round trip: create, then read).  On a well-formed table whose next rowid fits
  64 bits, a valid POST answers 201 with a row, and a GET of that row's id right
  after answers 200 with the same row.
\<close>

theorem create_then_get:
  assumes "db_wf d" "validate_create b = Inr pb" "sql_int (stock pb)" "sql_int (next_rowid (products d))"
  shows "\<exists>p d'. dispatch now (Create_product b) d = (\<lparr>status = 201, resp_body = Product_body p\<rparr>, d') \<and>
                dispatch t (Get_product (product_id p)) d' = (\<lparr>status = 200, resp_body = Product_body p\<rparr>, d')"
proof -
  let ?p = "new_row pb (next_rowid (products d)) now"
  let ?d' = "d\<lparr>products := products d @ [?p]\<rparr>"
  have r: "read_errors ?p = []"
    using validate_create_sound [OF assms(2)] by (simp add: read_errors_def new_row_def)
  have c: "create_product d now pb = Inr (?p, ?d')" using assms(3) by (simp add: create_product_Inr)
  have i: "product_id ?p = next_rowid (products d)" by (simp add: new_row_def)
  have "lookup_row (products ?d') (product_id ?p) = Some ?p"
    using next_rowid_fresh [of "products d"] i by (simp add: lookup_row_snoc)
  with assms(4) i have "get_product ?d' (product_id ?p) = Inr (Some ?p)" by (simp add: get_product_def)
  with assms(2) c r show ?thesis
    by (auto simp: create_product_endpoint_def get_product_endpoint_def)
qed

theorem create_then_get_witness:
  "db_wf \<lparr>products = []\<rparr> \<and>
   validate_create \<lparr>body_name = Given (Some ''Ketorolaco 10mg''), body_description = Unset,
     body_price = Given (Some (21 / 4)), body_stock = Unset\<rparr> =
     Inr \<lparr>name = ''Ketorolaco 10mg'', description = None, price = 21 / 4, stock = 0\<rparr> \<and>
   sql_int (stock \<lparr>name = ''Ketorolaco 10mg'', description = None :: string option, price = 21 / 4 :: real,
     stock = 0 :: int\<rparr>) \<and> sql_int (next_rowid (products \<lparr>products = []\<rparr>)) \<and>
   (\<exists>p d'. dispatch 1 (Create_product \<lparr>body_name = Given (Some ''Ketorolaco 10mg''), body_description = Unset,
       body_price = Given (Some (21 / 4)), body_stock = Unset\<rparr>) \<lparr>products = []\<rparr> =
         (\<lparr>status = 201, resp_body = Product_body p\<rparr>, d') \<and>
       dispatch 2 (Get_product (product_id p)) d' = (\<lparr>status = 200, resp_body = Product_body p\<rparr>, d'))"
proof -
  have h1: "db_wf \<lparr>products = []\<rparr>" by (simp add: db_wf_def ids_sorted_def)
  have h2: "validate_create \<lparr>body_name = Given (Some ''Ketorolaco 10mg''), body_description = Unset,
     body_price = Given (Some (21 / 4 :: real)), body_stock = Unset :: int option patch\<rparr> =
     Inr \<lparr>name = ''Ketorolaco 10mg'', description = None, price = 21 / 4, stock = 0\<rparr>"
    by (simp add: validate_create_def field_errors_defs checked_def Let_def check_len_def check_gt_def)
  have h3: "sql_int (stock \<lparr>name = ''Ketorolaco 10mg'', description = None :: string option,
     price = 21 / 4 :: real, stock = 0 :: int\<rparr>)" by (simp add: sql_int_def)
  have h4: "sql_int (next_rowid (products \<lparr>products = []\<rparr>))" by (simp add: next_rowid_def sql_int_def)
  from create_then_get [OF h1 h2 h3 h4, of 1 2] h1 h2 h3 h4 show ?thesis by (intro conjI)
qed

text \<open>
  C33 (round trip: an empty update).  On a well-formed table, a PUT of a stored row
  with the body \<open>{}\<close> loads the row, sets no attribute, commits it back and
  answers 200 with the row as it was; the table is unchanged.
\<close>

theorem empty_put_unchanged:
  assumes "db_wf d" "lookup_row (products d) k = Some p" "sql_int k"
  shows "dispatch now (Update_product k \<lparr>body_name = Unset, body_description = Unset, body_price = Unset,
           body_stock = Unset\<rparr>) d = (\<lparr>status = 200, resp_body = Product_body p\<rparr>, d)"
proof -
  from assms(2) have p: "p \<in> set (products d)" "product_id p = k" by (simp_all add: lookup_row_Some)
  from assms(1) p(1) have ok: "row_ok p" by (rule db_wf_row)
  then have "flush_update p \<lparr>body_name = Unset, body_description = Unset, body_price = Unset,
      body_stock = Unset\<rparr> = Inr p"
    by (intro flush_update_unchanged) (simp add: row_ok_def)
  moreover from assms(1) p(1) have "replace_row p (products d) = products d"
    by (intro replace_row_same) (simp_all add: db_wf_def)
  moreover from assms(2,3) have "get_product d k = Inr (Some p)" by (simp add: get_product_def)
  ultimately show ?thesis using ok
    by (simp add: update_errors_def update_product_endpoint_def update_product_def row_ok_read)
qed

theorem empty_put_unchanged_witness:
  "let r = \<lparr>name = ''Paracetamol 500mg'', description = None, price = 3 / 2, stock = 10,
            product_id = 1, created_at = 0\<rparr>
   in db_wf \<lparr>products = [r]\<rparr> \<and> lookup_row [r] 1 = Some r \<and> sql_int 1 \<and>
      dispatch 0 (Update_product 1 \<lparr>body_name = Unset, body_description = Unset, body_price = Unset,
        body_stock = Unset\<rparr>) \<lparr>products = [r]\<rparr> = (\<lparr>status = 200, resp_body = Product_body r\<rparr>, \<lparr>products = [r]\<rparr>)"
proof -
  define r where "r = \<lparr>name = ''Paracetamol 500mg'', description = None :: string option,
    price = 3 / 2 :: real, stock = 10 :: int, product_id = 1 :: int, created_at = 0 :: nat\<rparr>"
  have h1: "db_wf \<lparr>products = [r]\<rparr>"
    by (simp add: r_def db_wf_def row_ok_def read_errors_def field_errors_defs ids_sorted_def sql_int_def
        check_len_def check_gt_def check_ge_def)
  have h2': "lookup_row [r] 1 = Some r" by (simp add: lookup_row_def r_def)
  then have h2: "lookup_row (products \<lparr>products = [r]\<rparr>) 1 = Some r" by simp
  have h3: "sql_int 1" by (simp add: sql_int_def)
  from empty_put_unchanged [OF h1 h2 h3, of 0] h1 h2' h3 show ?thesis
    unfolding Let_def r_def [symmetric] by (intro conjI)
qed

text \<open>
  C34 (error: ids beyond 64 bits).  The path parameter is a Python int with no bound,
  and the sqlite3 driver cannot bind one outside 64 bits: a GET, a PUT with a valid
  body, or a DELETE of such an id is answered 500, not the 404 the spec promises
  for every id that names no product, and the table is unchanged.
\<close>

theorem huge_id_500:
  assumes "\<not> sql_int pid" "update_errors b = []"
  shows "dispatch now (Get_product pid) d = (server_error, d) \<and>
         dispatch now (Update_product pid b) d = (server_error, d) \<and>
         dispatch now (Delete_product pid) d = (server_error, d)"
  using assms by (simp add: get_product_def get_product_endpoint_def update_product_endpoint_def
      delete_product_endpoint_def)

theorem huge_id_500_witness:
  "\<not> sql_int (2 ^ 63) \<and>
   update_errors \<lparr>body_name = Unset, body_description = Unset, body_price = Unset, body_stock = Unset\<rparr> = [] \<and>
   dispatch 0 (Get_product (2 ^ 63)) \<lparr>products = []\<rparr> = (server_error, \<lparr>products = []\<rparr>)"
proof -
  have h: "\<not> sql_int (2 ^ 63)"
    "update_errors \<lparr>body_name = Unset, body_description = Unset, body_price = Unset,
       body_stock = Unset :: int option patch\<rparr> = []"
    by (simp_all add: sql_int_def update_errors_def)
  from huge_id_500 [OF h, of 0 "\<lparr>products = []\<rparr>"] h show ?thesis by simp
qed

text \<open>
  C35 (ordering: PUTs of different rows commute).  Two PUTs of different ids get the
  same answers whichever is served first, and leave the same table: each depends
  only on the row it names and rewrites only that row.
\<close>

theorem put_commute:
  assumes "i \<noteq> j"
  shows "fst (dispatch ta (Update_product i a) (snd (dispatch tb (Update_product j b) d))) =
           fst (dispatch ta (Update_product i a) d) \<and>
         fst (dispatch tb (Update_product j b) (snd (dispatch ta (Update_product i a) d))) =
           fst (dispatch tb (Update_product j b) d) \<and>
         snd (dispatch tb (Update_product j b) (snd (dispatch ta (Update_product i a) d))) =
           snd (dispatch ta (Update_product i a) (snd (dispatch tb (Update_product j b) d)))"
proof -
  let ?ps = "products d"
  have li: "lookup_row (products (snd (dispatch tb (Update_product j b) d))) i = lookup_row ?ps i"
    using assms lookup_after_put [where u = b and i = j and ps = ?ps and k = i]
    by (simp add: dispatch_update_table del: dispatch.simps split: option.split)
  have lj: "lookup_row (products (snd (dispatch ta (Update_product i a) d))) j = lookup_row ?ps j"
    using assms lookup_after_put [where u = a and i = i and ps = ?ps and k = j]
    by (simp add: dispatch_update_table del: dispatch.simps split: option.split)
  have ids: "product_id x = i" if "put_row a i (lookup_row ?ps i) = Some x" for x
    using that by (auto dest!: put_row_Some lookup_row_Some)
  have idsj: "product_id y = j" if "put_row b j (lookup_row ?ps j) = Some y" for y
    using that by (auto dest!: put_row_Some lookup_row_Some)
  have "snd (dispatch tb (Update_product j b) (snd (dispatch ta (Update_product i a) d))) =
        snd (dispatch ta (Update_product i a) (snd (dispatch tb (Update_product j b) d)))"
    using li lj ids idsj assms
    by (simp add: dispatch_update_table replace_row_commute del: dispatch.simps split: option.split)
  with li lj show ?thesis by (simp add: dispatch_update_local del: dispatch.simps)
qed

theorem put_commute_witness:
  "let r1 = \<lparr>name = ''Paracetamol 500mg'', description = None, price = 3 / 2, stock = 10,
             product_id = 1, created_at = 0\<rparr>;
       r2 = \<lparr>name = ''Ibuprofeno 400mg'', description = None, price = 2, stock = 5,
             product_id = 2, created_at = 0\<rparr>;
       a = \<lparr>body_name = Unset, body_description = Unset, body_price = Given (Some 2), body_stock = Unset\<rparr>;
       b = \<lparr>body_name = Unset, body_description = Unset, body_price = Unset, body_stock = Given (Some 7)\<rparr>;
       d = \<lparr>products = [r1, r2]\<rparr>
   in (1 :: int) \<noteq> 2 \<and>
      snd (dispatch 2 (Update_product 2 b) (snd (dispatch 1 (Update_product 1 a) d))) =
      snd (dispatch 1 (Update_product 1 a) (snd (dispatch 2 (Update_product 2 b) d)))"
proof -
  define r1 where "r1 = \<lparr>name = ''Paracetamol 500mg'', description = None :: string option,
    price = 3 / 2 :: real, stock = 10 :: int, product_id = 1 :: int, created_at = 0 :: nat\<rparr>"
  define r2 where "r2 = \<lparr>name = ''Ibuprofeno 400mg'', description = None :: string option,
    price = 2 :: real, stock = 5 :: int, product_id = 2 :: int, created_at = 0 :: nat\<rparr>"
  define a where "a = \<lparr>body_name = Unset :: string option patch, body_description = Unset :: string option patch,
    body_price = Given (Some (2 :: real)), body_stock = Unset :: int option patch\<rparr>"
  define b where "b = \<lparr>body_name = Unset :: string option patch, body_description = Unset :: string option patch,
    body_price = Unset :: real option patch, body_stock = Given (Some (7 :: int))\<rparr>"
  have h: "(1 :: int) \<noteq> 2" by simp
  from put_commute [where i = 1 and j = 2 and ta = 1 and tb = 2 and a = a and b = b
      and d = "\<lparr>products = [r1, r2]\<rparr>", OF h]
  have c: "snd (dispatch 2 (Update_product 2 b) (snd (dispatch 1 (Update_product 1 a) \<lparr>products = [r1, r2]\<rparr>))) =
      snd (dispatch 1 (Update_product 1 a) (snd (dispatch 2 (Update_product 2 b) \<lparr>products = [r1, r2]\<rparr>)))"
    by (elim conjE)
  show ?thesis
    unfolding Let_def r1_def [symmetric] r2_def [symmetric] a_def [symmetric] b_def [symmetric]
    using h c by (intro conjI)
qed

text \<open>
  C36 (idempotence of PUT).  Serving the same PUT a second time gives the same answer
  as the first and changes nothing more: the row it wrote already holds the values it
  sets.
\<close>

theorem put_idempotent:
  "dispatch t' (Update_product i u) (snd (dispatch t (Update_product i u) d)) = dispatch t (Update_product i u) d"
proof (cases "put_row u i (lookup_row (products d) i)")
  case None
  then have s: "snd (dispatch t (Update_product i u) d) = d"
    by (simp only: dispatch_update_table) simp
  have f: "fst (dispatch t' (Update_product i u) d) = fst (dispatch t (Update_product i u) d)"
    by (rule dispatch_update_local) (rule refl)
  have g: "snd (dispatch t' (Update_product i u) d) = snd (dispatch t (Update_product i u) d)"
    by (simp only: dispatch_update_table)
  show ?thesis unfolding s by (rule prod_eqI) (simp_all only: f g)
next
  case (Some x)
  then obtain p where p: "lookup_row (products d) i = Some p" "flush_update p u = Inr x"
    "product_id x = product_id p" by (auto dest: put_row_Some)
  from Some have c: "update_errors u = [] \<and> sql_int i" by (auto simp: put_row_def split: if_splits)
  have l: "lookup_row (products (snd (dispatch t (Update_product i u) d))) i = Some x"
    using lookup_after_put [where u = u and i = i and ps = "products d" and k = i] Some
    by (simp only: dispatch_update_table) simp
  have x: "flush_update x u = Inr x" using p(2) by (rule flush_update_idem)
  with l c have r: "put_row u i (lookup_row (products (snd (dispatch t (Update_product i u) d))) i) = Some x"
    by (simp add: put_row_def)
  have "snd (dispatch t' (Update_product i u) (snd (dispatch t (Update_product i u) d))) =
      snd (dispatch t (Update_product i u) d)"
    apply (subst (1) dispatch_update_table)
    apply (subst r)
    using Some by (simp only: dispatch_update_table) (simp add: replace_row_twice)
  moreover have "fst (dispatch t' (Update_product i u) (snd (dispatch t (Update_product i u) d))) =
      fst (dispatch t (Update_product i u) d)"
    using l x p(1,2) c by (simp only: dispatch_update_response) simp
  ultimately show ?thesis by (simp only: prod_eq_iff)
qed

end
