(* ===== verification/Db_Init.thy ===== *)
theory Db_Init
  imports Crud
begin

text \<open>
  Start-up, src/app/db.py.  \<open>DATABASE_URL\<close> comes from the environment with a SQLite
  file as default; a URL that starts with \<open>sqlite\<close> selects the SQLite dialect, its
  seed script \<open>story.sql\<close> and \<open>executescript\<close>; any other URL selects
  \<open>story_postgres.sql\<close>, which \<open>init_db\<close> splits at every \<open>;\<close> into stripped,
  non-empty statements run one by one in one transaction (\<open>execute_all\<close>).
  \<open>init_db\<close> seeds only a table with no rows, and only when the script file exists;
  \<open>on_startup\<close> (src/app/main.py) calls it.  The SQL engine is outside the
  repository: it is two parameters, \<open>script\<close> (\<open>executescript\<close> on a whole
  SQLite script) and \<open>exec\<close> (one statement), each returning the new database state
  or an error.
\<close>

section \<open>Configuration\<close>

definition default_database_url :: string where
  "default_database_url = ''sqlite:///./story.db''"

definition database_url :: "string option \<Rightarrow> string" where
  "database_url env = (case env of None \<Rightarrow> default_database_url | Some u \<Rightarrow> u)"

definition is_sqlite :: "string \<Rightarrow> bool" where
  "is_sqlite url \<longleftrightarrow> prefix ''sqlite'' url"

definition seed_file :: "string \<Rightarrow> string" where
  "seed_file url = (if is_sqlite url then ''story.sql'' else ''story_postgres.sql'')"

section \<open>Splitting the seed script\<close>

text \<open>
  \<open>str.strip()\<close> removes leading and trailing whitespace; among the characters
  \<open>\x00\<close>--\<open>\xff\<close> of the model that is tab, line feed, vertical tab, form feed,
  carriage return, the separators \<open>\x1c\<close>--\<open>\x1f\<close>, space, \<open>\x85\<close> and
  \<open>\xa0\<close>.
\<close>

definition py_space :: "char \<Rightarrow> bool" where
  "py_space c \<longleftrightarrow>
     (let n = of_char c :: nat in (9 \<le> n \<and> n \<le> 13) \<or> (28 \<le> n \<and> n \<le> 32) \<or> n = 133 \<or> n = 160)"

definition py_strip :: "string \<Rightarrow> string" where
  "py_strip s = rev (dropWhile py_space (rev (dropWhile py_space s)))"

text \<open>\<open>str.split(sep)\<close>: the pieces between the separators, \<open>n + 1\<close> of them for \<open>n\<close> separators.\<close>

fun split_on :: "char \<Rightarrow> string \<Rightarrow> string list" where
  "split_on c [] = [[]]"
| "split_on c (x # xs) =
     (let ws = split_on c xs in if x = c then [] # ws else (x # hd ws) # tl ws)"

definition split_statements :: "string \<Rightarrow> string list" where
  "split_statements txt = [py_strip s. s \<leftarrow> split_on CHR '';'' txt, py_strip s \<noteq> []]"

section \<open>\<open>init_db\<close>\<close>

text \<open>
  \<open>with engine.begin() as conn: for stmt in statements: conn.execute(text(stmt))\<close>:
  the statements run in order in one transaction.  The first statement that raises
  ends the loop and the transaction is rolled back, so the error is the result and
  no statement's effect is committed.  \<open>exec\<close> is the engine running one statement.
\<close>

primrec execute_all :: "(string \<Rightarrow> db \<Rightarrow> 'e + db) \<Rightarrow> string list \<Rightarrow> db \<Rightarrow> 'e + db" where
  "execute_all exec [] d = Inr d"
| "execute_all exec (s # ss) d = sbind (exec s d) (execute_all exec ss)"

text \<open>
  \<open>create_all\<close> leaves an existing table alone, so the state is the table; \<open>count\<close>
  is its number of rows (the \<open>except\<close> branch, taken when the table is missing, is
  unreachable after \<open>create_all\<close>).  \<open>sql\<close> is the content of the seed file, None
  when it does not exist.  On SQLite the whole text goes to \<open>executescript\<close>, the
  parameter \<open>script\<close>, which parses and runs it inside the SQLite library.
\<close>

definition init_db ::
  "string \<Rightarrow> string option \<Rightarrow> (string \<Rightarrow> db \<Rightarrow> 'e + db) \<Rightarrow> (string \<Rightarrow> db \<Rightarrow> 'e + db) \<Rightarrow>
   db \<Rightarrow> 'e + db" where
  "init_db url sql script exec d =
     (if length (products d) \<noteq> 0 then Inr d
      else case sql of
             None \<Rightarrow> Inr d
           | Some txt \<Rightarrow>
               if is_sqlite url then script txt d else execute_all exec (split_statements txt) d)"

text \<open>\<open>on_startup\<close> (src/app/main.py): \<open>init_db()\<close> with the URL read from the environment.\<close>

definition on_startup ::
  "string option \<Rightarrow> string option \<Rightarrow> (string \<Rightarrow> db \<Rightarrow> 'e + db) \<Rightarrow> (string \<Rightarrow> db \<Rightarrow> 'e + db) \<Rightarrow>
   db \<Rightarrow> 'e + db" where
  "on_startup env sql script exec d = init_db (database_url env) sql script exec d"

section \<open>Lemmas\<close>

lemma split_on_nonempty [simp]: "split_on c s \<noteq> []"
  by (induction s) (auto simp: Let_def)

lemma split_on_no_sep: "w \<in> set (split_on c s) \<Longrightarrow> c \<notin> set w"
proof (induction s arbitrary: w)
  case (Cons x xs)
  obtain v vs where v: "split_on c xs = v # vs" by (cases "split_on c xs") auto
  with Cons show ?case by (auto simp: Let_def split: if_splits)
qed simp

lemma py_strip_sub: "set (py_strip s) \<subseteq> set s"
  unfolding py_strip_def by (auto dest!: set_dropWhileD)

lemma last_dropWhile: "dropWhile P xs \<noteq> [] \<Longrightarrow> last (dropWhile P xs) = last xs"
  by (induction xs) auto

lemma py_strip_idem: "py_strip (py_strip s) = py_strip s"
proof -
  let ?t = "dropWhile py_space s"
  let ?u = "rev (dropWhile py_space (rev ?t))"
  have "dropWhile py_space ?u = ?u"
  proof (cases "?u = []")
    case False
    then have ne: "dropWhile py_space (rev ?t) \<noteq> []" by simp
    then have t: "?t \<noteq> []" by (metis dropWhile.simps(1) rev.simps(1))
    have "hd ?u = last (dropWhile py_space (rev ?t))" using ne by (simp add: hd_rev)
    also have "\<dots> = last (rev ?t)" using ne by (rule last_dropWhile)
    also have "\<dots> = hd ?t" using t by (simp add: last_rev)
    finally show ?thesis using hd_dropWhile [of py_space s] t by (simp add: dropWhile_eq_self_iff)
  qed (simp only: dropWhile.simps(1))
  then show ?thesis by (simp add: py_strip_def)
qed

lemma execute_all_Inl:
  "s \<in> set ss \<Longrightarrow> \<forall>d. \<exists>e. exec s d = Inl e \<Longrightarrow> \<exists>e. execute_all exec ss d = Inl e"
proof (induction ss arbitrary: d)
  case (Cons x ss)
  show ?case
  proof (cases "exec x d")
    case (Inr d')
    show ?thesis
    proof (cases "x = s")
      case True
      with Cons.prems(2) Inr show ?thesis by (metis sum.distinct(1))
    next
      case False
      with Cons Inr show ?thesis by simp
    qed
  qed simp
qed simp

lemma split_on_sep: "c \<notin> set x \<Longrightarrow> split_on c (x @ c # y) = x # split_on c y"
  by (induction x) (auto simp: Let_def)

lemma filter_dropWhile:
  "(\<And>x. Q x \<Longrightarrow> \<not> P x) \<Longrightarrow> filter P (dropWhile Q xs) = filter P xs"
  by (induction xs) auto

lemma filter_py_strip:
  assumes "\<And>x. py_space x \<Longrightarrow> \<not> P x"
  shows "filter P (py_strip s) = filter P s"
proof -
  have "filter P (py_strip s) = rev (filter P (dropWhile py_space (rev (dropWhile py_space s))))"
    unfolding py_strip_def rev_filter ..
  also have "\<dots> = filter P s"
    using assms by (simp add: filter_dropWhile rev_filter [symmetric])
  finally show ?thesis .
qed

section \<open>Properties of start-up\<close>

text \<open>
  C18 (safety).  Every statement \<open>init_db\<close> runs on a non-SQLite engine is non-empty,
  contains no \<open>;\<close> and carries no leading or trailing whitespace.
\<close>

theorem split_statements_clean:
  assumes "s \<in> set (split_statements txt)"
  shows "s \<noteq> [] \<and> CHR '';'' \<notin> set s \<and> py_strip s = s"
proof -
  from assms obtain w where w: "w \<in> set (split_on CHR '';'' txt)" and s: "s = py_strip w" "py_strip w \<noteq> []"
    by (auto simp: split_statements_def)
  from w have "CHR '';'' \<notin> set w" by (rule split_on_no_sep)
  with py_strip_sub [of w] s show ?thesis by (auto simp: py_strip_idem)
qed

theorem split_statements_clean_witness:
  "''SELECT 1'' \<in> set (split_statements '' SELECT 1 ;;'') \<and>
   ''SELECT 1'' \<noteq> [] \<and> CHR '';'' \<notin> set ''SELECT 1'' \<and> py_strip ''SELECT 1'' = ''SELECT 1''"
proof -
  have h: "''SELECT 1'' \<in> set (split_statements '' SELECT 1 ;;'')" by code_simp
  from split_statements_clean [OF h] h show ?thesis by simp
qed

text \<open>
  C19 (a bug of the Postgres seeding path).  The split does not know SQL string
  literals.  In any script whose first \<open>;\<close> falls inside a string literal
  opened after an even number of quotes, the first statement \<open>init_db\<close> runs is the
  text up to that \<open>;\<close>, stripped: it holds an odd number of quotes, an unterminated
  literal, so it is not valid SQL; the rest of the literal starts the next statement.
\<close>

theorem split_statements_breaks_literal:
  assumes "CHR '';'' \<notin> set pre" "CHR '';'' \<notin> set a" "CHR 0x27 \<notin> set a"
    "even (length (filter (\<lambda>c. c = CHR 0x27) pre))"
  shows "split_statements (pre @ CHR 0x27 # a @ CHR '';'' # rest) =
           py_strip (pre @ CHR 0x27 # a) # split_statements rest \<and>
         odd (length (filter (\<lambda>c. c = CHR 0x27) (py_strip (pre @ CHR 0x27 # a))))"
proof -
  let ?w = "pre @ CHR 0x27 # a"
  have q: "filter (\<lambda>c. c = CHR 0x27) (py_strip ?w) = filter (\<lambda>c. c = CHR 0x27) ?w"
  proof (rule filter_py_strip)
    have "\<not> py_space (CHR 0x27)" by (simp add: py_space_def)
    then show "py_space x \<Longrightarrow> \<not> x = CHR 0x27" for x by blast
  qed
  have fa: "filter (\<lambda>c. c = CHR 0x27) a = []"
    using assms(3) by (auto simp: filter_empty_conv)
  then have fw: "filter (\<lambda>c. c = CHR 0x27) ?w = filter (\<lambda>c. c = CHR 0x27) pre @ [CHR 0x27]"
    by simp
  have "CHR 0x27 \<in> set (filter (\<lambda>c. c = CHR 0x27) (py_strip ?w))"
    unfolding q fw by simp
  then have ne: "py_strip ?w \<noteq> []" by auto
  have "?w @ CHR '';'' # rest = pre @ CHR 0x27 # a @ CHR '';'' # rest" by simp
  moreover have "CHR '';'' \<notin> set ?w" using assms(1,2) by simp
  ultimately have "split_on CHR '';'' (pre @ CHR 0x27 # a @ CHR '';'' # rest) = ?w # split_on CHR '';'' rest"
    using split_on_sep [of "CHR '';''" ?w rest] by metis
  with ne have "split_statements (pre @ CHR 0x27 # a @ CHR '';'' # rest) = py_strip ?w # split_statements rest"
    by (simp add: split_statements_def)
  moreover have "odd (length (filter (\<lambda>c. c = CHR 0x27) (py_strip ?w)))"
    using assms(4) unfolding q fw by simp
  ultimately show ?thesis by blast
qed


theorem split_statements_breaks_literal_witness:
  "CHR '';'' \<notin> set ''INSERT INTO products (name) VALUES ('' \<and> CHR '';'' \<notin> set ''a'' \<and>
   CHR 0x27 \<notin> set ''a'' \<and>
   even (length (filter (\<lambda>c. c = CHR 0x27) ''INSERT INTO products (name) VALUES ('')) \<and>
   split_statements (''INSERT INTO products (name) VALUES ('' @ CHR 0x27 # ''a'' @ CHR '';'' # ''b'' @ [CHR 0x27] @ '');'') =
     py_strip (''INSERT INTO products (name) VALUES ('' @ CHR 0x27 # ''a'') #
       split_statements (''b'' @ [CHR 0x27] @ '');'') \<and>
   odd (length (filter (\<lambda>c. c = CHR 0x27) (py_strip (''INSERT INTO products (name) VALUES ('' @ CHR 0x27 # ''a''))))"
proof -
  have h: "CHR '';'' \<notin> set ''INSERT INTO products (name) VALUES (''" "CHR '';'' \<notin> set ''a''"
    "CHR 0x27 \<notin> set ''a''" "even (length (filter (\<lambda>c. c = CHR 0x27) ''INSERT INTO products (name) VALUES (''))"
    by simp_all
  from split_statements_breaks_literal [OF h, of "''b'' @ [CHR 0x27] @ '');''"] h show ?thesis by blast
qed

text \<open>
  C26 (error: the Postgres seed is all or nothing).  On a non-SQLite engine, a seed
  script with a statement that the engine rejects, in whatever state it runs, makes
  \<open>init_db\<close> raise: the transaction commits no row, and start-up fails.  With C19,
  a seed row whose text contains \<open>;\<close> stops the service from starting on Postgres.
\<close>

theorem seed_rejected_statement_aborts:
  assumes "products d = []" "\<not> is_sqlite url" "s \<in> set (split_statements txt)"
    "\<forall>d. \<exists>e. exec s d = Inl e"
  shows "\<exists>e. init_db url (Some txt) script exec d = Inl e"
  using assms execute_all_Inl [of s "split_statements txt" exec d] by (simp add: init_db_def)

theorem seed_rejected_statement_aborts_witness:
  "let txt = ''INSERT INTO products (name) VALUES ('' @ [CHR 0x27] @ ''a;b'' @ [CHR 0x27] @ '');'';
       s = ''INSERT INTO products (name) VALUES ('' @ [CHR 0x27] @ ''a'';
       exec = (\<lambda>s (d :: db). if even (length (filter (\<lambda>c. c = CHR 0x27) s)) then Inr d
                             else Inl ''syntax error'')
   in products \<lparr>products = []\<rparr> = [] \<and> \<not> is_sqlite ''postgresql://story'' \<and>
      s \<in> set (split_statements txt) \<and> (\<forall>d. \<exists>e. exec s d = Inl e) \<and>
      (\<exists>e. init_db ''postgresql://story'' (Some txt) exec exec \<lparr>products = []\<rparr> = Inl e)"
proof -
  define sq where "sq = ''INSERT INTO products (name) VALUES ('' @ [CHR 0x27] @ ''a;b'' @ [CHR 0x27] @ '');''"
  define s where "s = ''INSERT INTO products (name) VALUES ('' @ [CHR 0x27] @ ''a''"
  define exec where "exec = (\<lambda>s (d :: db). if even (length (filter (\<lambda>c. c = CHR 0x27) s)) then Inr d
                             else Inl ''syntax error'')"
  have h1: "products \<lparr>products = []\<rparr> = []" by simp
  have h2: "\<not> is_sqlite ''postgresql://story''" by (simp add: is_sqlite_def)
  have h3: "s \<in> set (split_statements sq)" unfolding s_def sq_def by code_simp
  have "\<not> even (length (filter (\<lambda>c. c = CHR 0x27) s))" unfolding s_def by code_simp
  then have h4: "\<forall>d. \<exists>e. exec s d = Inl e" by (simp add: exec_def)
  from seed_rejected_statement_aborts [of "\<lparr>products = []\<rparr>" "''postgresql://story''" s sq exec exec,
      OF h1 h2 h3 h4] h1 h2 h3 h4 show ?thesis
    unfolding Let_def sq_def [symmetric] s_def [symmetric] exec_def [symmetric] by (intro conjI)
qed

end
