(* ===== verification/Spec2Isabelle.thy ===== *)
theory Spec2Isabelle
  imports Paging Http_Properties Db_Init
begin

text \<open>
  \<^bold>\<open>A verified model of the product inventory service.\<close>

  The repository is a FastAPI service over one SQLite table of products.  A request
  enters \<open>src/app/main.py\<close>, where FastAPI validates its query parameters and body
  against the Pydantic schemas of \<open>src/app/schemas.py\<close>; the endpoint function then
  calls the persistence layer \<open>src/app/crud.py\<close>, which reads and writes the table
  declared in \<open>src/app/models.py\<close> through a session opened per request by
  \<open>src/app/db.py\<close>; the returned row is validated again against ProductRead and
  sent.  At start-up \<open>init_db\<close> (\<open>src/app/db.py\<close>) seeds an empty table from a SQL
  script.

  \<^bold>\<open>Theories.\<close>
  \<^item> \<open>Prelude\<close>: the error monad \<open>sbind\<close> on \<open>'e + 'a\<close> (a Python exception is an
    \<open>Inl\<close>), the named collections \<open>table_simps\<close> and \<open>table_inv\<close>, and lemmas on
    lists of rows with ascending keys.
  \<^item> \<open>Models\<close> (models.py, the data of schemas.py): the records \<open>product_base\<close>
    (ProductBase) and \<open>product\<close> (the ORM Product, also the attribute set of
    ProductRead), the database state \<open>db\<close> (the table as rows in rowid order), the
    64-bit bound \<open>sql_int\<close> of SQLite integers, the rowid of an insert
    \<open>next_rowid\<close> (largest id plus one; the table has no AUTOINCREMENT), and the
    abstraction \<open>table_map\<close> of the table to a finite map.
  \<^item> \<open>Schemas\<close> (schemas.py, the \<open>Query\<close> declarations of main.py): a request body
    as a \<open>payload\<close> whose keys are absent, null or given; the validators
    \<open>validate_create\<close>, \<open>validate_update\<close>, \<open>read_errors\<close> (ProductRead) and
    \<open>validate_list_query\<close>, each returning every field error in field order.
  \<^item> \<open>Like\<close> (the name filter of crud.py \<open>get_products\<close>): SQLite's \<open>lower\<close> and
    LIKE matcher \<open>like_match\<close>, and \<open>ilike\<close>; theorems C8 (for a text without
    wildcards the filter is a case-insensitive substring test) and C15 (\<open>_\<close> in the
    text is a wildcard).
  \<^item> \<open>Crud\<close> (crud.py): \<open>get_product\<close>, \<open>get_products\<close>, \<open>create_product\<close>,
    \<open>update_product\<close>, \<open>delete_product\<close>.  \<open>update_product\<close> follows the
    code step by step: the loaded ORM instance (\<open>orm_product\<close>, \<open>load\<close>), the
    dictionary of \<open>model_dump(exclude_unset=True)\<close> (\<open>model_dump_unset\<close>, a list
    of \<open>update_item\<close>), the loop of \<open>setattr\<close> calls (\<open>setattr_loop\<close>), and the
    commit (\<open>flush_instance\<close>: 64-bit binding, then the NOT NULL checks);
    \<open>merge_patch\<close> is the explicit merge the spec's design note asks for.  The
    table invariant \<open>db_wf\<close> (ids ascending and positive, rows readable as
    ProductRead, stock within 64 bits) and the lemmas that each write keeps it;
    theorems C2 (partial-update law), C7 (pages of the listing), C9 (refinement of
    the writes to map operations), C20 (the loop equals the merge in any key order)
    and C30 (\<open>get_products\<close> refines \<open>list_spec\<close>, the listing of the spec's
    section 4.1, for filter texts without wildcards).
  \<^item> \<open>Routes\<close> (main.py): the five endpoint functions, the response shapes,
    \<open>dispatch\<close> (request validation, then the endpoint) and \<open>run\<close> (a sequence of
    requests, each in its own session); the response contract (\<open>conforms\<close>: a
    status its endpoint declares and a body of that status's shape); \<open>put_row\<close>,
    the row a PUT writes as a function of the row it loads.  Its lemmas are the
    facts the properties share: the step invariant \<open>dispatch_wf\<close>, the frame
    lemma \<open>dispatch_keeps_row\<close> (a request leaves every row it does not name,
    \<open>targets\<close>, as it was), the id bound of one request, and that a PUT depends on
    and rewrites only its own row.
  \<^item> \<open>Http_Properties\<close> (main.py): theorems C3 (delete law), C4 (404s), C5 and C6
    (rejected and accepted creations), C10 (side-effect-free failures), C12 (default
    listing), C13 (the explicit-null bug), C14 (the order of checks in PUT), C16 (the
    64-bit stock bound), C21 (every response keeps the contract), C22 (exactly which
    listings get 422), C23 (one stored row that ProductRead rejects breaks the
    listing), C32 and C33 (round trips: a created row reads back; an empty PUT gives
    the row back unchanged), C34 (an id beyond 64 bits is a 500, not a 404), C35
    (PUTs of different rows commute: same answers and same table in either order)
    and C36 (a repeated PUT answers the same and changes nothing more).
  \<^item> \<open>Paging\<close> (a client of \<open>list_products\<close>): \<open>fetch_pages\<close> asks for page
    after page until one is empty; theorem C29 (the walk ends and returns every row
    from its offset once, in id order).
  \<^item> \<open>Db_Init\<close> (db.py and the start-up hook of main.py): the database URL and
    dialect, \<open>py_strip\<close>, \<open>split_on\<close>, \<open>split_statements\<close>, the statement
    loop in one transaction \<open>execute_all\<close>, \<open>init_db\<close> and \<open>on_startup\<close>;
    theorems C18 (every statement run is stripped, non-empty and free of \<open>;\<close>),
    C19 (a \<open>;\<close> inside a string literal cuts the literal: the statement before it
    holds an odd number of quotes) and C26 (a rejected seed statement aborts
    start-up).
  \<^item> This theory: the states the service can reach from a well-formed start
    (\<open>reachable\<close>), the invariant over them (C1), the scenario of the test
    \<open>test_crud_product\<close> on any well-formed table (C11), the reuse of a deleted id
    (C17), that every table can be emptied through the API (C24, liveness), that
    a row outlives every sequence of requests that does not name it (C25), exactly
    when the test \<open>test_list_products_filter_by_name\<close> passes on a well-formed
    table (C27: its case-sensitive check is stronger than the filter), that ids
    grow by at most one per request (C28), and that the tests' client starts the
    service on SQLite with the whole seed script (C31).

  \<^bold>\<open>Modelling choices.\<close>  Python ints are \<open>int\<close>, with the 64-bit limit of the
  sqlite3 driver written out where an int is bound; floats are \<open>real\<close> (the service
  only compares prices with 0); strings are Isabelle strings of 8-bit characters, so
  the length limits and the case folding are those of ASCII text; timestamps are
  \<open>nat\<close>, supplied with each request.  No definition of the service needs fuel:
  every loop of the code (the \<open>setattr\<close> loop, LIKE matching, \<open>split\<close>, the
  statement loop) runs over a finite list and is structural recursion or a list
  operation.  The one loop whose end depends on the service's behaviour is the
  client's page walk \<open>fetch_pages\<close>, a \<open>partial_function (option)\<close> (None: it
  never ends); C29 proves that it returns, on tables shorter than \<open>2^63 - 100\<close>
  rows so that every offset it sends fits 64 bits.

  \<^bold>\<open>Not modelled.\<close>  JSON decoding and Pydantic's type coercion (the model starts
  from decoded values); path parsing; the Postgres dialect's ILIKE (the model is the
  default SQLite engine); the SQL engine that runs the seed script (a parameter of
  \<open>init_db\<close>: \<open>executescript\<close> on SQLite and one statement on other engines);
  the random rowid SQLite picks once the largest id is \<open>2^63 - 1\<close> (C24 and the
  lookups assume ids within 64 bits, which the API reaches only after \<open>2^63\<close>
  inserts); \<open>get_db\<close>'s session object (a request's effects are committed or
  discarded as a whole, which is what \<open>run\<close> models);
  concurrency between requests (left to the database, the spec says; the model
  serves requests one after another); of the test suite, the \<open>sys.path\<close> set-up of
  conftest.py and pytest's fixture machinery (the fixture's choice of database,
  \<open>client_database_url\<close>, is modelled).  \<open>update_product\<close>'s commit checks the
  64-bit bound on the instance's stock whether or not the PUT set it, where
  SQLAlchemy binds only the changed columns; a stock loaded from SQLite always fits
  64 bits, so the two never differ in what a client sees.
\<close>

section \<open>The requests of the test suite\<close>

text \<open>The bodies sent by \<open>test_crud_product\<close> (written in ASCII, as the model's strings are).\<close>

definition ketorolaco :: payload where
  "ketorolaco =
     \<lparr>body_name = Given (Some ''Ketorolaco 10mg''), body_description = Given (Some ''Analgesico''),
      body_price = Given (Some (21 / 4)), body_stock = Given (Some 33)\<rparr>"

definition restock :: payload where
  "restock = \<lparr>body_name = Unset, body_description = Unset, body_price = Given (Some 6),
              body_stock = Given (Some 40)\<rparr>"

text \<open>The request of \<open>test_list_products_filter_by_name\<close>: \<open>GET /products?name=Paracetamol\<close>.\<close>

definition paracetamol_query :: request where
  "paracetamol_query = List_products None None (Some ''Paracetamol'')"

text \<open>
  What \<open>test_list_products_filter_by_name\<close> asserts of the response: status 200, at
  least one row, and \<open>"Paracetamol" in data[0]["name"]\<close>, a case-sensitive substring
  test on the first row.
\<close>

definition filter_test_passes :: "response \<Rightarrow> bool" where
  "filter_test_passes r \<longleftrightarrow>
     status r = 200 \<and>
     (case resp_body r of
        Product_list ps \<Rightarrow> 1 \<le> length ps \<and> sublist ''Paracetamol'' (name (hd ps))
      | _ \<Rightarrow> False)"

text \<open>
  The \<open>client\<close> fixture of the tests: with \<open>DATABASE_URL\<close> unset or empty it points
  the service at a fresh SQLite file \<open>test_story.db\<close> in pytest's \<open>tmp_path\<close>,
  otherwise it keeps the given URL; the service module is then reloaded with that
  environment and \<open>TestClient\<close> runs the start-up hook.  The URL is the one the
  service uses in the first test of a session only: \<open>app.db\<close> builds its engine
  when it is first imported and reloading \<open>app.main\<close> does not rebuild it, while
  the fixture leaves \<open>DATABASE_URL\<close> set, so later tests keep the first URL too.
\<close>

definition client_database_url :: "string option \<Rightarrow> string \<Rightarrow> string" where
  "client_database_url env tmp =
     (case env of
        Some u \<Rightarrow> if u = [] then ''sqlite:///'' @ tmp @ ''/test_story.db'' else u
      | None \<Rightarrow> ''sqlite:///'' @ tmp @ ''/test_story.db'')"

section \<open>Reachable states\<close>

text \<open>The databases the service can be in after serving any requests from \<open>d0\<close>.\<close>

inductive reachable :: "db \<Rightarrow> db \<Rightarrow> bool" for d0 :: db where
  boot: "reachable d0 d0"
| serve: "reachable d0 d \<Longrightarrow> reachable d0 (snd (dispatch t r d))"

section \<open>Lemmas\<close>

lemma run_Cons:
  "run d ((t, r) # rs) =
     (fst (dispatch t r d) # fst (run (snd (dispatch t r d)) rs), snd (run (snd (dispatch t r d)) rs))"
  by (simp add: split_def Let_def)

lemma run_reachable: "reachable d0 d \<Longrightarrow> reachable d0 (snd (run d rs))"
proof (induction rs arbitrary: d)
  case (Cons x rs)
  obtain t r where x: "x = (t, r)" by (cases x)
  from Cons.prems have "reachable d0 (snd (dispatch t r d))" by (rule reachable.serve)
  then have "reachable d0 (snd (run (snd (dispatch t r d)) rs))" by (rule Cons.IH)
  then show ?case unfolding x run_Cons snd_conv .
qed simp

lemma ketorolaco_valid:
  "validate_create ketorolaco =
     Inr \<lparr>name = ''Ketorolaco 10mg'', description = Some ''Analgesico'', price = 21 / 4, stock = 33\<rparr>"
  by (simp add: ketorolaco_def validate_create_def field_errors_defs checked_def Let_def
      check_len_def check_max_len_def check_gt_def check_ge_def)

lemma restock_valid: "update_errors restock = []"
  by (simp add: restock_def update_errors_def field_errors_defs check_gt_def check_ge_def)

lemma fresh_id: "product_id q \<notin> product_id ` set ps \<Longrightarrow> replace_row q ps = ps"
  by (induction ps) (auto simp: replace_row_def)

lemma next_rowid_not_used: "next_rowid ps \<notin> product_id ` set ps"
  using next_rowid_gt by fastforce

lemma db_wf_tail:
  "db_wf d \<Longrightarrow> products d = p # ps \<Longrightarrow> db_wf (d\<lparr>products := ps\<rparr>)"
  by (simp add: db_wf_def ids_sorted_def)

lemma delete_head_row:
  "db_wf d \<Longrightarrow> products d = p # ps \<Longrightarrow> sql_int (product_id p) \<Longrightarrow>
   dispatch t (Delete_product (product_id p)) d = (no_content, d\<lparr>products := ps\<rparr>)"
proof -
  assume wf: "db_wf d" and ps: "products d = p # ps" and sq: "sql_int (product_id p)"
  from wf ps have "\<forall>q\<in>set ps. product_id p < product_id q" by (simp add: db_wf_def ids_sorted_def)
  then have "filter (\<lambda>q. product_id q \<noteq> product_id p) ps = ps" by (intro filter_True) auto
  with ps sq show ?thesis
    by (simp add: delete_product_endpoint_def get_product_def lookup_row_def delete_product_def)
qed

lemma list_filter_response:
  assumes "db_wf d" "no_wildcards s" "s \<noteq> []"
  shows "fst (dispatch now (List_products None None (Some s)) d) =
           \<lparr>status = 200, resp_body = Product_list
              (take 3 (filter (\<lambda>p. sublist (sql_lower s) (sql_lower (name p))) (products d)))\<rparr>"
proof -
  let ?P = "\<lambda>p. sublist (sql_lower s) (sql_lower (name p))"
  from assms(1) have s: "sort_key product_id (products d) = products d"
    by (simp add: db_wf_def sort_key_ids_sorted)
  have nf: "name_filter (Some s) (products d) = filter ?P (products d)"
    using assms(2) by (simp add: name_filter_spec)
  from assms(1) have "list_all (\<lambda>p. read_errors p = []) (take 3 (filter ?P (products d)))"
    by (auto simp: db_wf_def list_all_iff row_ok_def dest!: in_set_takeD)
  moreover have "sql_int 0" "sql_int 3" by (simp_all add: sql_int_def)
  ultimately show ?thesis using assms(3) s nf
    by (simp add: validate_list_query_def check_ge_def check_le_def check_min_len_def list_products_def
        get_products_def filter_sort [symmetric] sql_limit_def sql_offset_def respond_list_def)
qed

section \<open>Properties of the whole service\<close>

text \<open>
  C1 (invariant).  From a well-formed table, every state the service reaches keeps
  the table well formed: ids unique, ascending and positive, every row readable as
  ProductRead (so no response of a stored row fails validation) and every stock
  within 64 bits.
\<close>

theorem reachable_wf:
  assumes "db_wf d0" "reachable d0 d"
  shows "db_wf d"
  using assms(2,1)
proof (induction rule: reachable.induct)
  case (serve d t r)
  then show ?case by (simp add: dispatch_wf)
qed

theorem reachable_wf_witness:
  "db_wf \<lparr>products = []\<rparr> \<and>
   reachable \<lparr>products = []\<rparr> (snd (run \<lparr>products = []\<rparr> [(1, Create_product ketorolaco)])) \<and>
   db_wf (snd (run \<lparr>products = []\<rparr> [(1, Create_product ketorolaco)]))"
proof -
  have h1: "db_wf \<lparr>products = []\<rparr>" by (simp add: db_wf_def ids_sorted_def)
  have h2: "reachable \<lparr>products = []\<rparr> (snd (run \<lparr>products = []\<rparr> [(1, Create_product ketorolaco)]))"
    by (rule run_reachable) (rule reachable.boot)
  from reachable_wf [OF h1 h2] h1 h2 show ?thesis by simp
qed

text \<open>
  C11 (functional: the scenario of \<open>test_crud_product\<close>).  On any well-formed table
  whose next rowid \<open>i\<close> fits 64 bits, the test's four requests, POST of Ketorolaco,
  PUT \<open>{"price": 6, "stock": 40}\<close> on \<open>i\<close>, DELETE \<open>i\<close> and GET \<open>i\<close>, are answered
  201 with the new row, 200 with price 6, stock 40 and every other field unchanged,
  204, and 404; and the table ends as it began.
\<close>

theorem crud_scenario:
  assumes wf: "db_wf d" and sq: "sql_int (next_rowid (products d))"
  shows "let i = next_rowid (products d);
             p = new_row \<lparr>name = ''Ketorolaco 10mg'', description = Some ''Analgesico'',
                          price = 21 / 4, stock = 33\<rparr> i t1
         in run d [(t1, Create_product ketorolaco), (t2, Update_product i restock),
                   (t3, Delete_product i), (t4, Get_product i)] =
            ([\<lparr>status = 201, resp_body = Product_body p\<rparr>,
              \<lparr>status = 200, resp_body = Product_body (p\<lparr>price := 6, stock := 40\<rparr>)\<rparr>,
              no_content, not_found], d)"
proof -
  define pb where "pb = \<lparr>name = ''Ketorolaco 10mg'', description = Some ''Analgesico'',
    price = 21 / 4 :: real, stock = 33 :: int\<rparr>"
  define ps where "ps = products d"
  define i where "i = next_rowid ps"
  define p where "p = new_row pb i t1"
  define p' where "p' = p\<lparr>price := 6, stock := 40\<rparr>"
  have fresh: "i \<notin> product_id ` set ps" by (simp add: i_def next_rowid_not_used)
  then have none: "lookup_row ps i = None" by (simp add: lookup_row_def find_key_None)
  have pid: "product_id p = i" "product_id p' = i" by (simp_all add: p_def p'_def new_row_def)
  have rp: "read_errors p = []" "read_errors p' = []"
    by (simp_all add: p_def p'_def pb_def new_row_def read_errors_def field_errors_defs
        check_len_def check_max_len_def check_gt_def check_ge_def)
  have sqi: "sql_int i" using sq by (simp add: i_def ps_def)
  have kv: "validate_create ketorolaco = Inr pb" by (simp add: pb_def ketorolaco_valid)
  have st: "sql_int (stock pb)" by (simp add: pb_def sql_int_def)
  have c: "create_product d t1 pb = Inr (p, d\<lparr>products := ps @ [p]\<rparr>)"
    using st by (simp add: create_product_def p_def i_def ps_def Let_def)
  have s1: "dispatch t1 (Create_product ketorolaco) d =
      (\<lparr>status = 201, resp_body = Product_body p\<rparr>, d\<lparr>products := ps @ [p]\<rparr>)"
    using kv c rp by (simp add: create_product_endpoint_def)
  have g1: "get_product (d\<lparr>products := ps @ [p]\<rparr>) i = Inr (Some p)"
    using sqi none pid by (simp add: get_product_def lookup_row_snoc)
  have f: "flush_update p restock = Inr p'"
    by (simp add: flush_update_eval restock_def p'_def p_def new_row_def sql_int_def Let_def)
  have r2: "replace_row p' (ps @ [p]) = ps @ [p']"
    using fresh_id [of p' ps] fresh pid by (simp add: replace_row_def)
  have s2: "dispatch t2 (Update_product i restock) (d\<lparr>products := ps @ [p]\<rparr>) =
      (\<lparr>status = 200, resp_body = Product_body p'\<rparr>, d\<lparr>products := ps @ [p']\<rparr>)"
    using restock_valid g1 f r2 rp by (simp add: update_product_endpoint_def update_product_def)
  have g2: "get_product (d\<lparr>products := ps @ [p']\<rparr>) i = Inr (Some p')"
    using sqi none pid by (simp add: get_product_def lookup_row_snoc)
  have "filter (\<lambda>q. product_id q \<noteq> i) ps = ps"
    using fresh by (intro filter_True) auto
  with pid have r3: "filter (\<lambda>q. product_id q \<noteq> i) (ps @ [p']) = ps" by simp
  have s3: "dispatch t3 (Delete_product i) (d\<lparr>products := ps @ [p']\<rparr>) = (no_content, d)"
    using g2 r3 pid(2) by (simp add: delete_product_endpoint_def delete_product_def ps_def)
  have s4: "dispatch t4 (Get_product i) d = (not_found, d)"
    using sqi none by (simp add: get_product_endpoint_def get_product_def ps_def)
  show ?thesis
    unfolding Let_def ps_def [symmetric] i_def [symmetric] pb_def [symmetric] p_def [symmetric]
      p'_def [symmetric]
    by (simp only: run_Cons run.simps(1) s1 s2 s3 s4 fst_conv snd_conv)
qed

theorem crud_scenario_witness:
  "db_wf \<lparr>products = []\<rparr> \<and> sql_int (next_rowid []) \<and>
   map status (fst (run \<lparr>products = []\<rparr> [(1, Create_product ketorolaco), (2, Update_product 1 restock),
                   (3, Delete_product 1), (4, Get_product 1)])) = [201, 200, 204, 404]"
proof -
  have h1: "db_wf \<lparr>products = []\<rparr>" by (simp add: db_wf_def ids_sorted_def)
  have h2: "sql_int (next_rowid (products \<lparr>products = []\<rparr>))" by (simp add: next_rowid_def sql_int_def)
  have i: "next_rowid (products \<lparr>products = []\<rparr>) = 1" by (simp add: next_rowid_def)
  have eq: "run \<lparr>products = []\<rparr> [(1, Create_product ketorolaco), (2, Update_product 1 restock),
                   (3, Delete_product 1), (4, Get_product 1)] =
      ([\<lparr>status = 201, resp_body = Product_body (new_row \<lparr>name = ''Ketorolaco 10mg'',
          description = Some ''Analgesico'', price = 21 / 4, stock = 33\<rparr> 1 1)\<rparr>,
        \<lparr>status = 200, resp_body = Product_body ((new_row \<lparr>name = ''Ketorolaco 10mg'',
          description = Some ''Analgesico'', price = 21 / 4, stock = 33\<rparr> 1 1)\<lparr>price := 6, stock := 40\<rparr>)\<rparr>,
        no_content, not_found], \<lparr>products = []\<rparr>)"
    using crud_scenario [OF h1 h2, of 1 2 3 4] unfolding Let_def i .
  from h1 h2 show ?thesis unfolding eq by (simp add: no_content_def not_found_def)
qed



text \<open>
  C24 (liveness: the table can always be emptied).  From every well-formed table
  whose ids fit 64 bits, deleting the stored ids one after the other answers 204 to
  every request and reaches the empty table: no state of the service holds a row
  that the API cannot remove.
\<close>

theorem drain_table:
  assumes "db_wf d" "\<forall>p\<in>set (products d). sql_int (product_id p)"
  shows "run d (map (\<lambda>p. (t, Delete_product (product_id p))) (products d)) =
           (replicate (length (products d)) no_content, d\<lparr>products := []\<rparr>)"
  using assms
proof (induction "products d" arbitrary: d)
  case Nil
  then show ?case by simp
next
  case (Cons p ps)
  let ?d = "d\<lparr>products := ps\<rparr>"
  have eq: "products d = p # ps" using Cons.hyps(2) by simp
  from Cons.prems eq have step: "dispatch t (Delete_product (product_id p)) d = (no_content, ?d)"
    by (intro delete_head_row) simp_all
  have "db_wf ?d" using Cons.prems(1) eq by (rule db_wf_tail)
  moreover have "\<forall>q\<in>set (products ?d). sql_int (product_id q)" using Cons.prems(2) eq by simp
  ultimately have "run ?d (map (\<lambda>p. (t, Delete_product (product_id p))) (products ?d)) =
      (replicate (length (products ?d)) no_content, ?d\<lparr>products := []\<rparr>)"
    by (intro Cons.hyps(1)) simp_all
  with step show ?case by (simp add: run_Cons eq)
qed

theorem drain_table_witness:
  "let r1 = \<lparr>name = ''Paracetamol 500mg'', description = None, price = 3 / 2, stock = 10,
             product_id = 1, created_at = 0\<rparr>;
       r2 = \<lparr>name = ''Ibuprofeno 400mg'', description = None, price = 2, stock = 5,
             product_id = 4, created_at = 0\<rparr>
   in db_wf \<lparr>products = [r1, r2]\<rparr> \<and> list_all (\<lambda>p. sql_int (product_id p)) [r1, r2] \<and>
      run \<lparr>products = [r1, r2]\<rparr> [(0, Delete_product 1), (0, Delete_product 4)] =
        ([no_content, no_content], \<lparr>products = []\<rparr>)"
proof -
  define r1 where "r1 = \<lparr>name = ''Paracetamol 500mg'', description = None :: string option,
    price = 3 / 2 :: real, stock = 10 :: int, product_id = 1 :: int, created_at = 0 :: nat\<rparr>"
  define r2 where "r2 = \<lparr>name = ''Ibuprofeno 400mg'', description = None :: string option,
    price = 2 :: real, stock = 5 :: int, product_id = 4 :: int, created_at = 0 :: nat\<rparr>"
  have h1: "db_wf \<lparr>products = [r1, r2]\<rparr>"
    by (simp add: db_wf_def row_ok_def read_errors_def field_errors_defs ids_sorted_def sql_int_def
        r1_def r2_def check_len_def check_gt_def check_ge_def)
  have h2: "\<forall>p\<in>set (products \<lparr>products = [r1, r2]\<rparr>). sql_int (product_id p)"
    by (simp add: r1_def r2_def sql_int_def)
  from drain_table [OF h1 h2, of 0] h1 h2 show ?thesis
    by (simp add: Let_def r1_def [symmetric] r2_def [symmetric]) (simp add: r1_def r2_def)
qed

text \<open>
  C25 (safety: rows are isolated).  On a well-formed table, a stored row stays exactly
  as it is through any sequence of requests none of which is a PUT or a DELETE of its
  id: creating, listing, reading and changing other rows never touches it.
\<close>

theorem row_isolation:
  assumes "db_wf d" "lookup_row (products d) k = Some p" "list_all (\<lambda>(t, r). \<not> targets r k) rs"
  shows "lookup_row (products (snd (run d rs))) k = Some p"
  using assms
proof (induction rs arbitrary: d)
  case (Cons x rs)
  obtain t r where x: "x = (t, r)" by (cases x)
  from Cons.prems x have "db_wf (snd (dispatch t r d))"
    "lookup_row (products (snd (dispatch t r d))) k = Some p"
    by (simp_all add: dispatch_wf dispatch_keeps_row)
  with Cons.prems x have "lookup_row (products (snd (run (snd (dispatch t r d)) rs))) k = Some p"
    by (intro Cons.IH) simp_all
  then show ?case unfolding x run_Cons snd_conv .
qed simp

theorem row_isolation_witness:
  "let r = \<lparr>name = ''Paracetamol 500mg'', description = None, price = 3 / 2, stock = 10,
            product_id = 1, created_at = 0\<rparr>;
       rs = [(1, Create_product ketorolaco), (2, Update_product 2 restock), (3, Delete_product 2)]
   in db_wf \<lparr>products = [r]\<rparr> \<and> lookup_row [r] 1 = Some r \<and>
      list_all (\<lambda>(t, q). \<not> targets q 1) rs \<and>
      lookup_row (products (snd (run \<lparr>products = [r]\<rparr> rs))) 1 = Some r"
proof -
  define r where "r = \<lparr>name = ''Paracetamol 500mg'', description = None :: string option,
    price = 3 / 2 :: real, stock = 10 :: int, product_id = 1 :: int, created_at = 0 :: nat\<rparr>"
  define rs where "rs = [(1 :: nat, Create_product ketorolaco), (2, Update_product 2 restock),
    (3, Delete_product 2)]"
  have h1: "db_wf \<lparr>products = [r]\<rparr>"
    by (simp add: db_wf_def row_ok_def read_errors_def field_errors_defs ids_sorted_def sql_int_def
        r_def check_len_def check_gt_def check_ge_def)
  have h2': "lookup_row [r] 1 = Some r" by (simp add: lookup_row_def r_def)
  then have h2: "lookup_row (products \<lparr>products = [r]\<rparr>) 1 = Some r" by simp
  have h3: "list_all (\<lambda>(t, q). \<not> targets q 1) rs" by (simp add: rs_def)
  show ?thesis
    unfolding Let_def r_def [symmetric] rs_def [symmetric]
    using h1 h2' h3 row_isolation [OF h1 h2 h3] by (intro conjI)
qed

text \<open>
  C27 (when the filter test passes).  On any well-formed table,
  \<open>test_list_products_filter_by_name\<close> passes exactly when some row's name contains
  \<open>paracetamol\<close> ignoring ASCII case and the first such row by id spells it
  \<open>Paracetamol\<close>.  The test is stronger than the filter: on a table whose first
  match is spelt \<open>PARACETAMOL\<close>, the service answers as the spec says and the test
  fails.
\<close>

theorem filter_test_outcome:
  assumes "db_wf d"
  shows "filter_test_passes (fst (dispatch now paracetamol_query d)) \<longleftrightarrow>
         (case filter (\<lambda>p. sublist (sql_lower ''Paracetamol'') (sql_lower (name p))) (products d) of
            [] \<Rightarrow> False
          | q # _ \<Rightarrow> sublist ''Paracetamol'' (name q))"
proof -
  have "no_wildcards ''Paracetamol''" by (simp add: no_wildcards_def)
  from list_filter_response [OF assms this, of now] show ?thesis
    by (simp add: paracetamol_query_def filter_test_passes_def split: list.split)
qed

theorem filter_test_outcome_witness:
  "let r1 = \<lparr>name = ''PARACETAMOL jarabe'', description = None, price = 3, stock = 4,
             product_id = 1, created_at = 0\<rparr>;
       r2 = \<lparr>name = ''Paracetamol 500mg'', description = None, price = 3 / 2, stock = 10,
             product_id = 2, created_at = 0\<rparr>
   in db_wf \<lparr>products = [r1, r2]\<rparr> \<and>
      \<not> filter_test_passes (fst (dispatch 0 paracetamol_query \<lparr>products = [r1, r2]\<rparr>))"
proof -
  define r1 where "r1 = \<lparr>name = ''PARACETAMOL jarabe'', description = None :: string option,
      price = 3 :: real, stock = 4 :: int, product_id = 1 :: int, created_at = 0 :: nat\<rparr>"
  define r2 where "r2 = \<lparr>name = ''Paracetamol 500mg'', description = None :: string option,
      price = 3 / 2 :: real, stock = 10 :: int, product_id = 2 :: int, created_at = 0 :: nat\<rparr>"
  have h: "db_wf \<lparr>products = [r1, r2]\<rparr>"
    by (simp add: r1_def r2_def db_wf_def row_ok_def read_errors_def field_errors_defs ids_sorted_def
        sql_int_def check_len_def check_gt_def check_ge_def)
  have f: "filter (\<lambda>p. sublist (sql_lower ''Paracetamol'') (sql_lower (name p))) [r1, r2] = [r1, r2]"
    unfolding r1_def r2_def by code_simp
  have n: "\<not> sublist ''Paracetamol'' (name r1)" unfolding r1_def by code_simp
  from filter_test_outcome [OF h, of 0] f n h show ?thesis by (simp add: Let_def r1_def [symmetric] r2_def [symmetric])
qed

text \<open>
  C28 (bounds: ids grow by at most one per request).  If every stored id is at most
  \<open>b \<ge> 0\<close>, then after any sequence of \<open>n\<close> requests every id is at most \<open>b + n\<close>.
  So from a table whose ids fit 64 bits, fewer than \<open>2^63 - b\<close> requests keep every id
  within 64 bits (the hypothesis of C24), and SQLite never reaches the largest rowid,
  where it would switch to random ids.
\<close>

theorem run_ids_bound:
  assumes "0 \<le> b" "\<forall>p\<in>set (products d). product_id p \<le> b"
  shows "\<forall>p\<in>set (products (snd (run d rs))). product_id p \<le> b + int (length rs)"
  using assms
proof (induction rs arbitrary: d b)
  case (Cons x rs)
  obtain t r where x: "x = (t, r)" by (cases x)
  from Cons.prems have "\<forall>p\<in>set (products (snd (dispatch t r d))). product_id p \<le> b + 1"
    by (rule dispatch_ids_bound)
  with Cons.prems(1) have "\<forall>p\<in>set (products (snd (run (snd (dispatch t r d)) rs))).
      product_id p \<le> b + 1 + int (length rs)"
    by (intro Cons.IH) simp_all
  then show ?case unfolding x run_Cons snd_conv by (simp add: add.assoc)
qed simp

theorem run_ids_bound_witness:
  "list_all (\<lambda>p. product_id p \<le> 2)
     (products (snd (run \<lparr>products = []\<rparr> [(1, Create_product ketorolaco), (2, Create_product ketorolaco)])))"
proof -
  define rs where "rs = [(1 :: nat, Create_product ketorolaco), (2, Create_product ketorolaco)]"
  have h1: "0 \<le> (0 :: int)" by simp
  have h2: "\<forall>p\<in>set (products \<lparr>products = []\<rparr>). product_id p \<le> 0" by simp
  have e: "(0 :: int) + int (length rs) = 2" by (simp add: rs_def)
  from run_ids_bound [OF h1 h2, of rs] show ?thesis
    unfolding list_all_iff rs_def [symmetric] e .
qed

text \<open>
  C31 (functional: the tests' start-up).  When \<open>DATABASE_URL\<close> is unset or empty,
  the test client starts the service on the fresh SQLite file of the fixture: start-up
  finds the table empty and hands the seed script \<open>story.sql\<close>, if it exists, whole
  to \<open>executescript\<close>; the split of the Postgres path is never used by the tests.
\<close>

theorem client_startup_sqlite:
  assumes "env = None \<or> env = Some []"
  shows "seed_file (client_database_url env tmp) = ''story.sql'' \<and>
         on_startup (Some (client_database_url env tmp)) sql script exec \<lparr>products = []\<rparr> =
           (case sql of None \<Rightarrow> Inr \<lparr>products = []\<rparr> | Some txt \<Rightarrow> script txt \<lparr>products = []\<rparr>)"
proof -
  from assms have "is_sqlite (client_database_url env tmp)"
    by (auto simp: client_database_url_def is_sqlite_def)
  then show ?thesis
    by (simp add: seed_file_def on_startup_def database_url_def init_db_def split: option.split)
qed

theorem client_startup_sqlite_witness:
  "let script = (\<lambda>(txt :: string) (d :: db). Inr \<lparr>products = []\<rparr> :: db_error + db)
   in (None = None \<or> None = Some []) \<and>
      seed_file (client_database_url None ''/tmp/pytest-0'') = ''story.sql'' \<and>
      on_startup (Some (client_database_url None ''/tmp/pytest-0'')) (Some ''INSERT ...'') script script
        \<lparr>products = []\<rparr> = script ''INSERT ...'' \<lparr>products = []\<rparr>"
proof -
  define script where "script = (\<lambda>(txt :: string) (d :: db). Inr \<lparr>products = []\<rparr> :: db_error + db)"
  have h: "(None :: string option) = None \<or> None = Some []" by simp
  from client_startup_sqlite [OF h, of "''/tmp/pytest-0''" "Some ''INSERT ...''" script script] h
  show ?thesis by (simp add: Let_def script_def [symmetric])
qed

end
